theory Spec2Isabelle
  imports Main "HOL-Library.Sublist" "HOL-Library.List_Lexorder" "HOL-Library.Char_ord"
begin

section \<open>Python values used by \<open>CGATPipelines/PipelineMapping.py\<close>\<close>

text \<open>
  The module builds shell statements as strings.  Every \<^verbatim>\<open>raise\<close>, failed
  \<^verbatim>\<open>assert\<close> and failing built-in of the source is a value of \<open>pyexc\<close>; a
  method that can raise returns \<open>pyexc + 'a\<close> with \<open>Inl\<close> for the exception.
\<close>

datatype pyexc =
    AssertionError string
  | ValueError string
  | NotImplementedError string
  | KeyError string
  | UnboundLocalError string
  | AttributeError string
  | IOError string

definition and_then :: "pyexc + 'a \<Rightarrow> ('a \<Rightarrow> pyexc + 'b) \<Rightarrow> pyexc + 'b" where
  \<comment> \<open>sequencing: an exception of the first computation skips the rest\<close>
  "and_then m f = (case m of Inl e \<Rightarrow> Inl e | Inr x \<Rightarrow> f x)"

definition endswith :: "string \<Rightarrow> string \<Rightarrow> bool" where
  \<comment> \<open>\<^verbatim>\<open>s.endswith(suf)\<close>\<close>
  "endswith s suf = prefix (rev suf) (rev s)"

fun join :: "string \<Rightarrow> string list \<Rightarrow> string" where
  \<comment> \<open>\<^verbatim>\<open>sep.join(xs)\<close>\<close>
  "join sep [] = []"
| "join sep [x] = x"
| "join sep (x # y # ys) = x @ sep @ join sep (y # ys)"

definition isspace :: "char \<Rightarrow> bool" where
  \<comment> \<open>the characters \<^verbatim>\<open>str.strip()\<close> removes: space, tab, LF, VT, FF, CR\<close>
  "isspace c = (c \<in> set [CHR '' '', CHR 0x09, CHR 0x0A, CHR 0x0B, CHR 0x0C, CHR 0x0D])"

definition strip :: "string \<Rightarrow> string" where
  \<comment> \<open>\<^verbatim>\<open>s.strip()\<close>\<close>
  "strip s = dropWhile isspace (rev (dropWhile isspace (rev s)))"

definition basename :: "string \<Rightarrow> string" where
  \<comment> \<open>\<^verbatim>\<open>os.path.basename\<close>: what follows the last slash\<close>
  "basename p = rev (takeWhile (\<lambda>c. c \<noteq> CHR ''/'') (rev p))"

definition splitext_root :: "string \<Rightarrow> string" where
  \<comment> \<open>\<^verbatim>\<open>os.path.splitext(b)[0]\<close> for a name \<open>b\<close> without a slash: cut at the last dot,
      unless only dots precede it\<close>
  "splitext_root b =
     (let rest = dropWhile (\<lambda>c. c \<noteq> CHR ''.'') (rev b) in
      case rest of
        [] \<Rightarrow> b
      | _ # r \<Rightarrow> if list_ex (\<lambda>c. c \<noteq> CHR ''.'') r then rev r else b)"

definition py_max :: "nat list \<Rightarrow> pyexc + nat" where
  \<comment> \<open>\<^verbatim>\<open>max(xs)\<close>: raises on the empty list\<close>
  "py_max xs = (case xs of [] \<Rightarrow> Inl (ValueError ''max() arg is an empty sequence'')
                | x # r \<Rightarrow> Inr (fold max r x))"

definition py_min :: "nat list \<Rightarrow> pyexc + nat" where
  "py_min xs = (case xs of [] \<Rightarrow> Inl (ValueError ''min() arg is an empty sequence'')
                | x # r \<Rightarrow> Inr (fold min r x))"

subsection \<open>The \<^verbatim>\<open>%\<close> operator with a dictionary\<close>

text \<open>
  \<^verbatim>\<open>template % locals()\<close> scans the template once, left to right: \<^verbatim>\<open>%%\<close> gives a
  percent sign; \<^verbatim>\<open>%(key)\<close> looks the key up at once (a missing key is a
  \<^verbatim>\<open>KeyError\<close>) and then needs its conversion character; a template that ends
  before the conversion character is \<^verbatim>\<open>ValueError: incomplete format\<close>.  Inserted
  values are not scanned again.  The templates of this module that are filled from
  \<^verbatim>\<open>locals()\<close> use only \<^verbatim>\<open>%%\<close> and \<^verbatim>\<open>%(key)s\<close>, with no parenthesis inside a key;
  flags, widths and the other conversions are not modelled and are reported as
  unsupported.  The dictionary is an
  association list from a local name to the \<^verbatim>\<open>str()\<close> of its value; it holds the
  string-valued locals bound where the template is filled.
\<close>

datatype fmt_mode = Lit | Pct | Key string | Conv string

definition prepend :: "string \<Rightarrow> pyexc + string \<Rightarrow> pyexc + string" where
  "prepend p r = (case r of Inl e \<Rightarrow> Inl e | Inr s \<Rightarrow> Inr (p @ s))"

fun pyformat_go :: "(string \<times> string) list \<Rightarrow> fmt_mode \<Rightarrow> string \<Rightarrow> pyexc + string" where
  "pyformat_go d Lit [] = Inr []"
| "pyformat_go d Lit (c # cs) =
     (if c = CHR ''%'' then pyformat_go d Pct cs else prepend [c] (pyformat_go d Lit cs))"
| "pyformat_go d Pct [] = Inl (ValueError ''incomplete format'')"
| "pyformat_go d Pct (c # cs) =
     (if c = CHR ''%'' then prepend [c] (pyformat_go d Lit cs)
      else if c = CHR ''('' then pyformat_go d (Key []) cs
      else Inl (ValueError ''unsupported format character''))"
| "pyformat_go d (Key k) [] = Inl (ValueError ''incomplete format key'')"
| "pyformat_go d (Key k) (c # cs) =
     (if c = CHR '')'' then
        (case map_of d k of
           None \<Rightarrow> Inl (KeyError k)
         | Some v \<Rightarrow> pyformat_go d (Conv v) cs)
      else pyformat_go d (Key (k @ [c])) cs)"
| "pyformat_go d (Conv v) [] = Inl (ValueError ''incomplete format'')"
| "pyformat_go d (Conv v) (c # cs) =
     (if c = CHR ''s'' then prepend v (pyformat_go d Lit cs)
      else Inl (ValueError ''unsupported format character''))"

definition pyformat :: "string \<Rightarrow> (string \<times> string) list \<Rightarrow> pyexc + string" where
  "pyformat template d = pyformat_go d Lit template"

section \<open>What the module takes from outside\<close>

text \<open>
  \<^verbatim>\<open>P.getTempDir\<close>, \<^verbatim>\<open>P.snip\<close>, \<^verbatim>\<open>os.path.exists\<close>, \<^verbatim>\<open>Fastq.guessFormat\<close>,
  \<^verbatim>\<open>Sra.peek\<close> and \<^verbatim>\<open>Sra.extract\<close> are defined outside the module (in
  \<^verbatim>\<open>CGATPipelines/Pipeline.py\<close>, the file system and the \<^verbatim>\<open>CGAT\<close> package).  They are
  parameters of the model: \<open>getTempDir\<close> is the directory name the call in
  \<^verbatim>\<open>preprocess\<close> returns, \<open>guessFormat\<close> the list of quality formats guessed for a file
  (opening the file may raise), \<open>sra_peek\<close> the pair of file names and formats found in an
  archive.  The second temporary directory that the \<^verbatim>\<open>.sra\<close> branch creates for
  \<^verbatim>\<open>Sra.peek\<close> is removed at once and appears in no result.
\<close>

record env =
  getTempDir :: string
  path_exists :: "string \<Rightarrow> bool"
  snip :: "string \<Rightarrow> string \<Rightarrow> pyexc + string"
  guessFormat :: "string \<Rightarrow> pyexc + string list"
  sra_peek :: "string \<Rightarrow> pyexc + (string list \<times> string list)"
  sra_extract :: "string \<Rightarrow> string \<Rightarrow> string"

section \<open>The class \<^verbatim>\<open>Mapper\<close>\<close>

text \<open>
  The attributes of a mapper object that the modelled methods read or write.
  \<open>self_tmpdir_fastq\<close>, \<open>self_tmpdir\<close> and \<open>self_tmpdir_tophat\<close> are unset until
  \<^verbatim>\<open>preprocess\<close> and the \<^verbatim>\<open>mapper\<close> of \<^verbatim>\<open>BWA\<close> and of \<^verbatim>\<open>Tophat\<close> assign them, and
  \<open>self_executable\<close> is set only where the class or the constructor gives an executable;
  reading an unset attribute raises \<^verbatim>\<open>AttributeError\<close>.
\<close>

record mapper =
  self_datatype :: string
  self_preserve_colourspace :: bool
  self_compress :: bool
  self_convert :: bool
  self_strip_sequence :: bool
  self_remove_non_unique :: bool
  self_tmpdir_fastq :: "string option"
  self_tmpdir :: "string option"
  self_nogroup :: bool
  self_outdir :: string
  self_contaminants :: "string option"
  self_strand :: string
  self_orient :: string
  self_threads :: string
  self_remove_unique :: bool
  self_set_nh :: bool
  self_executable :: "string option"
  self_tmpdir_tophat :: "string option"

definition attr :: "string \<Rightarrow> 'a option \<Rightarrow> pyexc + 'a" where
  "attr name v = (case v of None \<Rightarrow> Inl (AttributeError name) | Some x \<Rightarrow> Inr x)"

definition quoteFile :: "mapper \<Rightarrow> string \<Rightarrow> string" where
  "quoteFile self filename =
     (if endswith filename ''.gz'' \<and> \<not> self_compress self
      then ''<( gunzip < '' @ filename @ '' )''
      else filename)"

subsection \<open>The statement templates of \<^verbatim>\<open>preprocess\<close>\<close>

definition tmpl_export :: string where
  \<open>tmpl_export =
     ''gunzip < %(infile)s\<newline>'' @
     ''                | awk '$11 != "QC" || $10 ~ /('' @ [CHR 0x5C] @ ''d+):('' @ [CHR 0x5C] @ ''d+):('' @ [CHR 0x5C] @ ''d+)/                 {if ($1 != "")\<newline>'' @
     ''                {readname=sprintf("%%%%s_%%%%s:%%%%s:%%%%s:%%%%s:%%%%s",\<newline>'' @
     ''                $1, $2, $3, $4, $5, $6);}\<newline>'' @
     ''                else {readname=sprintf("%%%%s:%%%%s:%%%%s:%%%%s:%%%%s",\<newline>'' @
     ''                $1, $3, $4, $5, $6);}\<newline>'' @
     ''                printf("@%%%%s'' @ [CHR 0x5C] @ ''n%%%%s'' @ [CHR 0x5C] @ ''n+'' @ [CHR 0x5C] @ ''n%%%%s'' @ [CHR 0x5C] @ ''n",readname,$9,$10);}'\<newline>'' @
     ''                %(compress_cmd)s\<newline>'' @
     ''                > %(tmpdir_fastq)s/%(track)s.fastq%(extension)s''\<close>

definition tmpl_fa :: string where
  \<open>tmpl_fa =
     ''gunzip < %(infile)s %(compress_cmd)s\<newline>'' @
     ''                    > %(tmpdir_fastq)s/%(track)s.fa''\<close>

definition tmpl_sra_convert_single :: string where
  \<open>tmpl_sra_convert_single =
     ''gunzip < %(infile)s\<newline>'' @
     ''                        | python %%(scriptsdir)s/fastq2fastq.py\<newline>'' @
     ''                        --method=change-format --target-format=sanger\<newline>'' @
     ''                        --guess-format=phred64\<newline>'' @
     ''                        --log=%(outfile)s.log\<newline>'' @
     ''                        %(compress_cmd)s\<newline>'' @
     ''                        > %(tmpdir_fastq)s/%(track)s_converted.fastq%(extension)s\<newline>'' @
     ''                        ''\<close>

definition tmpl_sra_convert_paired :: string where
  \<open>tmpl_sra_convert_paired =
     ''gunzip < %(infile)s\<newline>'' @
     ''                        | python %%(scriptsdir)s/fastq2fastq.py\<newline>'' @
     ''                        --method=change-format --target-format=sanger\<newline>'' @
     ''                        --guess-format=phred64\<newline>'' @
     ''                        --log=%(outfile)s.log %(compress_cmd)s\<newline>'' @
     ''                        > %(tmpdir_fastq)s/%(track)s_converted.1.fastq%(extension)s;\<newline>'' @
     ''                        gunzip < %(infile2)s\<newline>'' @
     ''                        | python %%(scriptsdir)s/fastq2fastq.py\<newline>'' @
     ''                        --method=change-format --target-format=sanger\<newline>'' @
     ''                        --guess-format=phred64\<newline>'' @
     ''                        --log=%(outfile)s.log %(compress_cmd)s\<newline>'' @
     ''                        > %(tmpdir_fastq)s/%(track)s_converted.2.fastq%(extension)s\<newline>'' @
     ''                        ''\<close>

definition tmpl_fastq_convert :: string where
  \<open>tmpl_fastq_convert =
     ''gunzip < %(infile)s\<newline>'' @
     ''                    | python %%(scriptsdir)s/fastq2fastq.py\<newline>'' @
     ''                    --method=change-format --target-format=sanger\<newline>'' @
     ''                    --guess-format=phred64\<newline>'' @
     ''                    --log=%(outfile)s.log\<newline>'' @
     ''                    %(compress_cmd)s\<newline>'' @
     ''                    > %(tmpdir_fastq)s/%(track)s.fastq%(extension)s''\<close>

definition tmpl_csfasta_gunzip :: string where
  \<open>tmpl_csfasta_gunzip =
     ''gunzip < %(infile)s\<newline>'' @
     ''                    > %(tmpdir_fastq)s/%(track)s.csfasta%(extension)s''\<close>

definition tmpl_qual_gunzip :: string where
  \<open>tmpl_qual_gunzip =
     ''gunzip < %(quality)s\<newline>'' @
     ''                    > %(tmpdir_fastq)s/%(track)s.qual%(extension)s''\<close>

definition tmpl_solid2fastq :: string where
  \<open>tmpl_solid2fastq =
     ''solid2fastq\<newline>'' @
     ''                    <(gunzip < %(infile)s) <(gunzip < %(quality)s)\<newline>'' @
     ''                    %(compress_cmd)s\<newline>'' @
     ''                    > %(tmpdir_fastq)s/%(track)s.fastq%(extension)''\<close>

definition tmpl_F3_gunzip :: string where
  \<open>tmpl_F3_gunzip =
     ''gunzip < %(fn)s.gz\<newline>'' @
     ''                        %(compress_cmd)s\<newline>'' @
     ''                        > %(tmpdir_fastq)s/%(track)s.%(suffix)s%(extension)s\<newline>'' @
     ''                        ''\<close>

definition tmpl_solid2fastq_F3 :: string where
  \<open>tmpl_solid2fastq_F3 =
     ''solid2fastq\<newline>'' @
     ''                    <(gunzip < %(infile)s) <(gunzip < %(quality)s)\<newline>'' @
     ''                    %(compress_cmd)s\<newline>'' @
     ''                    > %(tmpdir_fastq)s/%(track)s.fastq%(extension)s''\<close>

definition tmpl_fastq_pair_convert :: string where
  \<open>tmpl_fastq_pair_convert =
     ''gunzip < %(infile)s\<newline>'' @
     ''                    | python %%(scriptsdir)s/fastq2fastq.py\<newline>'' @
     ''                    --method=change-format --target-format=sanger\<newline>'' @
     ''                    --guess-format=phred64\<newline>'' @
     ''                    --log=%(outfile)s.log\<newline>'' @
     ''                    %(compress_cmd)s\<newline>'' @
     ''                    > %(tmpdir_fastq)s/%(track)s.1.fastq%(extension)s;\<newline>'' @
     ''                    gunzip < %(infile2)s\<newline>'' @
     ''                    | python %%(scriptsdir)s/fastq2fastq.py\<newline>'' @
     ''                    --method=change-format --target-format=sanger\<newline>'' @
     ''                    --guess-format=phred64\<newline>'' @
     ''                    --log=%(outfile)s.log\<newline>'' @
     ''                    %(compress_cmd)s\<newline>'' @
     ''                    > %(tmpdir_fastq)s/%(track)s.2.fastq%(extension)s\<newline>'' @
     ''                    ''\<close>

definition tmpl_sra_converted_name :: string where
  \<open>tmpl_sra_converted_name = ''%(tmpdir_fastq)s/%(track)s_converted.fastq%(extension)s''\<close>

definition tmpl_fn :: string where
  \<open>tmpl_fn = ''%(bn)s.%(suffix)s''\<close>

definition tmpl_F3_name :: string where
  \<open>tmpl_F3_name = ''%(tmpdir_fastq)s/%(track)s.%(suffix)s%(extension)s''\<close>

subsection \<open>\<^verbatim>\<open>Mapper.preprocess\<close>\<close>

text \<open>
  The loop over \<^verbatim>\<open>infiles\<close> carries the statement list, the list of file groups, the
  local \<^verbatim>\<open>track\<close> (the \<^verbatim>\<open>.sra\<close> branch rebinds it, and the new value stays for the
  files that follow) and the object (two branches assign \<^verbatim>\<open>self.datatype\<close>).
  \<open>pp_locals\<close> lists the string-valued locals that are bound in every branch; a branch
  adds the ones it binds itself.
\<close>

type_synonym pp_state = "string list \<times> string list list \<times> string \<times> mapper"

definition pp_locals ::
  "string \<Rightarrow> string \<Rightarrow> string \<Rightarrow> string \<Rightarrow> string \<Rightarrow> string \<Rightarrow> (string \<times> string) list" where
  "pp_locals infile outfile tmpdir_fastq track compress_cmd extension =
     [(''infile'', infile), (''outfile'', outfile), (''tmpdir_fastq'', tmpdir_fastq),
      (''track'', track), (''compress_cmd'', compress_cmd), (''extension'', extension)]"

definition pp_export ::
  "string \<Rightarrow> string \<Rightarrow> string \<Rightarrow> string \<Rightarrow> pp_state \<Rightarrow> string \<Rightarrow> pyexc + pp_state" where
  \<comment> \<open>lines 450-463: single end illumina export\<close>
  "pp_export outfile tmpdir_fastq compress_cmd extension st infile =
     (case st of (statement, fastqfiles, track, self) \<Rightarrow>
        and_then (pyformat tmpl_export
                    (pp_locals infile outfile tmpdir_fastq track compress_cmd extension))
          (\<lambda>s. Inr (statement @ [s],
                     fastqfiles @ [[tmpdir_fastq @ ''/'' @ track @ ''.fastq'' @ extension]],
                     track, self)))"

definition pp_fa ::
  "string \<Rightarrow> string \<Rightarrow> string \<Rightarrow> string \<Rightarrow> pp_state \<Rightarrow> string \<Rightarrow> pyexc + pp_state" where
  \<comment> \<open>lines 464-469\<close>
  "pp_fa outfile tmpdir_fastq compress_cmd extension st infile =
     (case st of (statement, fastqfiles, track, self) \<Rightarrow>
        and_then (pyformat tmpl_fa
                    (pp_locals infile outfile tmpdir_fastq track compress_cmd extension))
          (\<lambda>s. Inr (statement @ [s],
                     fastqfiles @ [[tmpdir_fastq @ ''/'' @ track @ ''.fa'']],
                     track, self\<lparr>self_datatype := ''fasta''\<rparr>)))"

definition pp_sra ::
  "env \<Rightarrow> string \<Rightarrow> string \<Rightarrow> string \<Rightarrow> string \<Rightarrow> pp_state \<Rightarrow> string \<Rightarrow> pyexc + pp_state" where
  \<comment> \<open>lines 471-532: when conversion is wanted and the archive holds neither one nor two
      files, no group is appended\<close>
  "pp_sra E outfile tmpdir_fastq compress_cmd extension st infile =
     (case st of (statement, fastqfiles, track, self) \<Rightarrow>
        and_then (sra_peek E infile) (\<lambda>(f, format).
          let statement1 = statement @ [sra_extract E infile tmpdir_fastq];
              sra_extraction_files = map (\<lambda>x. tmpdir_fastq @ ''/'' @ basename x) (sort f)
          in
          if ''sanger'' \<in> set format \<and> self_convert self then
            (case sra_extraction_files of
               [infile1] \<Rightarrow>
                 (let track1 = splitext_root (basename infile1);
                      d = pp_locals infile1 outfile tmpdir_fastq track1 compress_cmd extension
                  in and_then (pyformat tmpl_sra_convert_single d) (\<lambda>s.
                     and_then (pyformat tmpl_sra_converted_name d) (\<lambda>n.
                       Inr (statement1 @ [s], fastqfiles @ [[n]], track1, self))))
             | [infile1, infile2] \<Rightarrow>
                 (let track1 = splitext_root (basename infile1);
                      d = (''infile2'', infile2) #
                          pp_locals infile1 outfile tmpdir_fastq track1 compress_cmd extension
                  in and_then (pyformat tmpl_sra_convert_paired d) (\<lambda>s.
                       Inr (statement1 @ [s],
                            fastqfiles @
                              [[tmpdir_fastq @ ''/'' @ track1 @ ''_converted.1.fastq'' @ extension,
                                tmpdir_fastq @ ''/'' @ track1 @ ''_converted.2.fastq'' @ extension]],
                            track1, self)))
             | _ \<Rightarrow> Inr (statement1, fastqfiles, track, self))
          else Inr (statement1, fastqfiles @ [sra_extraction_files], track, self)))"

definition pp_fastq ::
  "env \<Rightarrow> string \<Rightarrow> string \<Rightarrow> string \<Rightarrow> string \<Rightarrow> pp_state \<Rightarrow> string \<Rightarrow> pyexc + pp_state" where
  \<comment> \<open>lines 534-551\<close>
  "pp_fastq E outfile tmpdir_fastq compress_cmd extension st infile =
     (case st of (statement, fastqfiles, track, self) \<Rightarrow>
        and_then (guessFormat E infile) (\<lambda>format.
          if ''sanger'' \<notin> set format \<and> self_convert self then
            and_then (pyformat tmpl_fastq_convert
                        (pp_locals infile outfile tmpdir_fastq track compress_cmd extension))
              (\<lambda>s. Inr (statement @ [s],
                         fastqfiles @ [[tmpdir_fastq @ ''/'' @ track @ ''.fastq'' @ extension]],
                         track, self))
          else Inr (statement, fastqfiles @ [[infile]], track, self)))"

definition pp_csfasta ::
  "env \<Rightarrow> string \<Rightarrow> string \<Rightarrow> string \<Rightarrow> string \<Rightarrow> pp_state \<Rightarrow> string \<Rightarrow> pyexc + pp_state" where
  \<comment> \<open>lines 553-579: single end SOLiD data\<close>
  "pp_csfasta E outfile tmpdir_fastq compress_cmd extension st infile =
     (case st of (statement, fastqfiles, track, self) \<Rightarrow>
        if self_preserve_colourspace self then
          and_then (snip E infile ''.csfasta.gz'') (\<lambda>b.
            let quality = b @ ''.qual.gz'';
                d = (''quality'', quality) #
                    pp_locals infile outfile tmpdir_fastq track compress_cmd extension
            in
            if \<not> path_exists E quality then Inl (ValueError (''no quality file for '' @ infile))
            else
              and_then (pyformat tmpl_csfasta_gunzip d) (\<lambda>s1.
              and_then (pyformat tmpl_qual_gunzip d) (\<lambda>s2.
                Inr (statement @ [s1] @ [s2],
                     fastqfiles @ [[tmpdir_fastq @ ''/'' @ track @ ''.csfasta'' @ extension,
                                    tmpdir_fastq @ ''/'' @ track @ ''.qual'' @ extension]],
                     track, self\<lparr>self_datatype := ''solid''\<rparr>))))
        else
          and_then (snip E infile ''.csfasta.gz'') (\<lambda>b.
            let quality = b @ ''.qual.gz'';
                d = (''quality'', quality) #
                    pp_locals infile outfile tmpdir_fastq track compress_cmd extension
            in
            and_then (pyformat tmpl_solid2fastq d) (\<lambda>s.
              Inr (statement @ [s],
                   fastqfiles @ [[tmpdir_fastq @ ''/'' @ track @ ''.fastq'' @ extension]],
                   track, self))))"

fun pp_F3_files ::
  "env \<Rightarrow> (string \<times> string) list \<Rightarrow> string list \<Rightarrow> string list \<times> string list
     \<Rightarrow> pyexc + (string list \<times> string list)" where
  \<comment> \<open>lines 588-601: the loop over the four suffixes; \<open>d\<close> holds the locals without
      \<^verbatim>\<open>suffix\<close> and \<^verbatim>\<open>fn\<close>\<close>
  "pp_F3_files E d [] (statement, f) = Inr (statement, f)"
| "pp_F3_files E d (sfx # rest) (statement, f) =
     (case pyformat tmpl_fn ((''suffix'', sfx) # d) of
        Inl e \<Rightarrow> Inl e
      | Inr fn \<Rightarrow>
          if \<not> path_exists E (fn @ ''.gz'')
          then Inl (ValueError (''expected file '' @ fn @ ''.gz missing''))
          else
            (case pyformat tmpl_F3_gunzip ((''fn'', fn) # (''suffix'', sfx) # d) of
               Inl e \<Rightarrow> Inl e
             | Inr s \<Rightarrow>
                 (case pyformat tmpl_F3_name ((''fn'', fn) # (''suffix'', sfx) # d) of
                    Inl e \<Rightarrow> Inl e
                  | Inr n \<Rightarrow> pp_F3_files E d rest (statement @ [s], f @ [n]))))"

definition pp_csfasta_F3 ::
  "env \<Rightarrow> string \<Rightarrow> string \<Rightarrow> string \<Rightarrow> string \<Rightarrow> pp_state \<Rightarrow> string \<Rightarrow> pyexc + pp_state" where
  \<comment> \<open>lines 581-613: paired end SOLiD data; the conversion branch snips
      \<^verbatim>\<open>.csfasta.gz\<close> from a name that ends in \<^verbatim>\<open>.csfasta.F3.gz\<close>\<close>
  "pp_csfasta_F3 E outfile tmpdir_fastq compress_cmd extension st infile =
     (case st of (statement, fastqfiles, track, self) \<Rightarrow>
        if self_preserve_colourspace self then
          and_then (snip E infile ''.csfasta.F3.gz'') (\<lambda>bn.
          and_then (pp_F3_files E
                      ((''bn'', bn) #
                       pp_locals infile outfile tmpdir_fastq track compress_cmd extension)
                      [''csfasta.F3'', ''csfasta.F5'', ''qual.F3'', ''qual.F5'']
                      (statement, [])) (\<lambda>(statement1, f).
            Inr (statement1, fastqfiles @ [f], track, self\<lparr>self_datatype := ''solid''\<rparr>)))
        else
          and_then (snip E infile ''.csfasta.gz'') (\<lambda>b.
            let quality = b @ ''.qual.gz'';
                d = (''quality'', quality) #
                    pp_locals infile outfile tmpdir_fastq track compress_cmd extension
            in
            and_then (pyformat tmpl_solid2fastq_F3 d) (\<lambda>s.
              Inr (statement @ [s],
                   fastqfiles @ [[tmpdir_fastq @ ''/'' @ track @ ''.fastq'' @ extension]],
                   track, self))))"

definition pp_fastq1 ::
  "env \<Rightarrow> string \<Rightarrow> string \<Rightarrow> string \<Rightarrow> string \<Rightarrow> pp_state \<Rightarrow> string \<Rightarrow> pyexc + pp_state" where
  \<comment> \<open>lines 615-650: the first file of a pair; the second is found by name\<close>
  "pp_fastq1 E outfile tmpdir_fastq compress_cmd extension st infile =
     (case st of (statement, fastqfiles, track, self) \<Rightarrow>
        and_then (snip E infile ''.fastq.1.gz'') (\<lambda>bn.
          let infile2 = bn @ ''.fastq.2.gz'' in
          if \<not> path_exists E infile2 then
            Inl (ValueError (''can not find paired ended file '' @
                             [CHR 0x27] @ infile2 @ [CHR 0x27] @ '' for '' @
                             [CHR 0x27] @ infile @ [CHR 0x27]))
          else
            and_then (guessFormat E infile) (\<lambda>format.
              if ''sanger'' \<notin> set format then
                and_then (pyformat tmpl_fastq_pair_convert
                            ((''infile2'', infile2) # (''bn'', bn) #
                             pp_locals infile outfile tmpdir_fastq track compress_cmd extension))
                  (\<lambda>s. Inr (statement @ [s],
                             fastqfiles @
                               [[tmpdir_fastq @ ''/'' @ track @ ''.1.fastq'' @ extension,
                                 tmpdir_fastq @ ''/'' @ track @ ''.2.fastq'' @ extension]],
                             track, self))
              else Inr (statement, fastqfiles @ [[infile, infile2]], track, self))))"

definition preprocess_step ::
  "env \<Rightarrow> string \<Rightarrow> string \<Rightarrow> string \<Rightarrow> string \<Rightarrow> pp_state \<Rightarrow> string \<Rightarrow> pyexc + pp_state" where
  \<comment> \<open>the body of the loop, lines 448-653: the first matching suffix decides\<close>
  "preprocess_step E outfile tmpdir_fastq compress_cmd extension st infile =
     (if endswith infile ''.export.txt.gz'' then
        pp_export outfile tmpdir_fastq compress_cmd extension st infile
      else if endswith infile ''.fa.gz'' then
        pp_fa outfile tmpdir_fastq compress_cmd extension st infile
      else if endswith infile ''.sra'' then
        pp_sra E outfile tmpdir_fastq compress_cmd extension st infile
      else if endswith infile ''.fastq.gz'' then
        pp_fastq E outfile tmpdir_fastq compress_cmd extension st infile
      else if endswith infile ''.csfasta.gz'' then
        pp_csfasta E outfile tmpdir_fastq compress_cmd extension st infile
      else if endswith infile ''.csfasta.F3.gz'' then
        pp_csfasta_F3 E outfile tmpdir_fastq compress_cmd extension st infile
      else if endswith infile ''.fastq.1.gz'' then
        pp_fastq1 E outfile tmpdir_fastq compress_cmd extension st infile
      else Inl (NotImplementedError (''unknown file format '' @ infile)))"

fun preprocess_loop ::
  "env \<Rightarrow> string \<Rightarrow> string \<Rightarrow> string \<Rightarrow> string \<Rightarrow> pp_state \<Rightarrow> string list \<Rightarrow> pyexc + pp_state" where
  "preprocess_loop E outfile tmpdir_fastq compress_cmd extension st [] = Inr st"
| "preprocess_loop E outfile tmpdir_fastq compress_cmd extension st (infile # infiles) =
     (case preprocess_step E outfile tmpdir_fastq compress_cmd extension st infile of
        Inl e \<Rightarrow> Inl e
      | Inr st1 \<Rightarrow> preprocess_loop E outfile tmpdir_fastq compress_cmd extension st1 infiles)"

definition preprocess ::
  "env \<Rightarrow> mapper \<Rightarrow> string list \<Rightarrow> string \<Rightarrow> pyexc + ((string \<times> string list list) \<times> mapper)" where
  \<comment> \<open>lines 419-659: returns the statement, the file groups and the object with
      \<^verbatim>\<open>tmpdir_fastq\<close> recorded\<close>
  "preprocess E self infiles outfile =
     (if \<not> length infiles > 0 then Inl (AssertionError ''no input files for mapping'')
      else
        let tmpdir_fastq = getTempDir E;
            statement = [''mkdir -p '' @ tmpdir_fastq];
            track = splitext_root (basename outfile);
            compress_cmd = (if self_compress self then ''| gzip'' else '''');
            extension = (if self_compress self then ''.gz'' else '''')
        in
        and_then (preprocess_loop E outfile tmpdir_fastq compress_cmd extension
                    (statement, [], track, self) infiles)
          (\<lambda>(statement1, fastqfiles, track1, self1).
             if \<not> length fastqfiles > 0 then Inl (AssertionError ''no fastq files for mapping'')
             else Inr ((join ''; '' statement1 @ '';'', fastqfiles),
                       self1\<lparr>self_tmpdir_fastq := Some tmpdir_fastq\<rparr>)))"

subsection \<open>The other phases and \<^verbatim>\<open>Mapper.build\<close>\<close>

definition Mapper_mapper :: "mapper \<Rightarrow> string list list \<Rightarrow> string \<Rightarrow> pyexc + (string \<times> mapper)" where
  \<comment> \<open>lines 661-664\<close>
  "Mapper_mapper self infiles outfile = Inr ('''', self)"

definition Mapper_postprocess :: "mapper \<Rightarrow> string list \<Rightarrow> string \<Rightarrow> pyexc + (string \<times> mapper)" where
  \<comment> \<open>lines 666-668\<close>
  "Mapper_postprocess self infiles outfile = Inr ('''', self)"

definition Mapper_cleanup :: "mapper \<Rightarrow> string \<Rightarrow> pyexc + (string \<times> mapper)" where
  \<comment> \<open>lines 670-675\<close>
  "Mapper_cleanup self outfile =
     and_then (attr ''tmpdir_fastq'' (self_tmpdir_fastq self))
       (\<lambda>t. Inr (''rm -rf '' @ t @ '';'', self))"

text \<open>
  A class is the record of its four phase methods; a subclass updates the methods it
  overrides.  \<^verbatim>\<open>build\<close> is the method of \<^verbatim>\<open>Mapper\<close> that every modelled class inherits:
  it calls the phases in order on the same object, checks the fragments and joins all
  four of them.
\<close>

record strategy =
  preprocess_m :: "mapper \<Rightarrow> string list \<Rightarrow> string \<Rightarrow> pyexc + ((string \<times> string list list) \<times> mapper)"
  mapper_m :: "mapper \<Rightarrow> string list list \<Rightarrow> string \<Rightarrow> pyexc + (string \<times> mapper)"
  postprocess_m :: "mapper \<Rightarrow> string list \<Rightarrow> string \<Rightarrow> pyexc + (string \<times> mapper)"
  cleanup_m :: "mapper \<Rightarrow> string \<Rightarrow> pyexc + (string \<times> mapper)"

definition terminated :: "string \<Rightarrow> bool" where
  \<comment> \<open>\<^verbatim>\<open>cmd.strip().endswith(";")\<close>\<close>
  "terminated cmd = endswith (strip cmd) '';''"

definition build :: "strategy \<Rightarrow> mapper \<Rightarrow> string list \<Rightarrow> string \<Rightarrow> pyexc + (string \<times> mapper)" where
  \<comment> \<open>lines 677-697\<close>
  "build S self infiles outfile =
     and_then (preprocess_m S self infiles outfile) (\<lambda>((cmd_preprocess, mapfiles), self1).
     and_then (mapper_m S self1 mapfiles outfile) (\<lambda>(cmd_mapper, self2).
     and_then (postprocess_m S self2 infiles outfile) (\<lambda>(cmd_postprocess, self3).
     and_then (cleanup_m S self3 outfile) (\<lambda>(cmd_clean, self4).
       if \<not> terminated cmd_preprocess then Inl (AssertionError '''')
       else if \<not> terminated cmd_mapper then Inl (AssertionError '''')
       else if cmd_postprocess \<noteq> [] \<and> \<not> terminated cmd_postprocess then Inl (AssertionError '''')
       else if cmd_clean \<noteq> [] \<and> \<not> terminated cmd_clean then Inl (AssertionError '''')
       else Inr (join '' checkpoint; '' [cmd_preprocess, cmd_mapper, cmd_postprocess, cmd_clean],
                 self4)))))"

definition Mapper_new :: mapper where
  \<comment> \<open>the class attributes of \<^verbatim>\<open>Mapper\<close> (lines 376-396) and the defaults of the
      constructors\<close>
  "Mapper_new =
     \<lparr>self_datatype = ''fastq'', self_preserve_colourspace = False, self_compress = False,
      self_convert = False, self_strip_sequence = False, self_remove_non_unique = False,
      self_tmpdir_fastq = None, self_tmpdir = None,
      self_nogroup = False, self_outdir = ''.'', self_contaminants = None,
      self_strand = '''', self_orient = '''', self_threads = '''',
      self_remove_unique = False, self_set_nh = False,
      self_executable = None, self_tmpdir_tophat = None\<rparr>"

definition Mapper_class :: "env \<Rightarrow> strategy" where
  "Mapper_class E =
     \<lparr>preprocess_m = preprocess E, mapper_m = Mapper_mapper,
      postprocess_m = Mapper_postprocess, cleanup_m = Mapper_cleanup\<rparr>"

section \<open>The class \<^verbatim>\<open>FastQc\<close>\<close>

definition tmpl_fastqc_nogroup :: string where
  \<open>tmpl_fastqc_nogroup =
     ''fastqc --extract --outdir=%(outdir)s --nogroup %(x)s\<newline>'' @
     ''                        %(contaminants_cmd)s >& %(outfile)s ;\<newline>'' @
     ''                        rm -f %(contaminats)s ; ''\<close>

definition tmpl_fastqc :: string where
  \<open>tmpl_fastqc =
     ''fastqc --extract --outdir=%(outdir)s %(x)s\<newline>'' @
     ''                        %(contaminants_cmd)s >& %(outfile)s ;\<newline>'' @
     ''                        rm -f %(contaminants)s ; ''\<close>

definition FastQc_new :: "bool \<Rightarrow> string \<Rightarrow> string option \<Rightarrow> mapper" where
  \<comment> \<open>lines 704-714; \<open>contaminants\<close> is the file that \<^verbatim>\<open>parse_contaminants\<close> wrote, if any\<close>
  "FastQc_new nogroup outdir contaminants =
     Mapper_new\<lparr>self_compress := True, self_nogroup := nogroup, self_outdir := outdir,
                self_contaminants := contaminants\<rparr>"

definition FastQc_statement :: "mapper \<Rightarrow> string \<Rightarrow> string \<Rightarrow> pyexc + string" where
  \<comment> \<open>lines 765-781, the statement for one file \<open>x\<close>.  The local \<^verbatim>\<open>track\<close> (a regular
      expression substitution on \<open>x\<close>) is referenced by neither template and is left out
      of the dictionary; \<^verbatim>\<open>str(None)\<close> is \<^verbatim>\<open>None\<close>, and an empty string counts as
      false in \<^verbatim>\<open>if contaminants\<close>.\<close>
  "FastQc_statement self outfile x =
     (let contaminants = self_contaminants self;
          outdir = self_outdir self;
          contaminants_cmd = (case contaminants of
                                Some c \<Rightarrow> if c \<noteq> [] then ''-a '' @ c else ''''
                              | None \<Rightarrow> '''');
          d = [(''outfile'', outfile),
               (''contaminants'', case contaminants of Some c \<Rightarrow> c | None \<Rightarrow> ''None''),
               (''outdir'', outdir), (''x'', x), (''contaminants_cmd'', contaminants_cmd)]
      in if self_nogroup self then pyformat tmpl_fastqc_nogroup d
         else pyformat tmpl_fastqc d)"

fun FastQc_files :: "mapper \<Rightarrow> string \<Rightarrow> string list \<Rightarrow> string list \<Rightarrow> pyexc + string list" where
  \<comment> \<open>the inner loop over the files of one group\<close>
  "FastQc_files self outfile statement [] = Inr statement"
| "FastQc_files self outfile statement (x # f) =
     (case FastQc_statement self outfile x of
        Inl e \<Rightarrow> Inl e
      | Inr s \<Rightarrow> FastQc_files self outfile (statement @ [s]) f)"

fun FastQc_groups :: "mapper \<Rightarrow> string \<Rightarrow> string list \<Rightarrow> string list list \<Rightarrow> pyexc + string list" where
  \<comment> \<open>the outer loop over the groups\<close>
  "FastQc_groups self outfile statement [] = Inr statement"
| "FastQc_groups self outfile statement (f # infiles) =
     (case FastQc_files self outfile statement f of
        Inl e \<Rightarrow> Inl e
      | Inr statement1 \<Rightarrow> FastQc_groups self outfile statement1 infiles)"

definition FastQc_mapper :: "mapper \<Rightarrow> string list list \<Rightarrow> string \<Rightarrow> pyexc + (string \<times> mapper)" where
  \<comment> \<open>lines 753-782\<close>
  "FastQc_mapper self infiles outfile =
     and_then (FastQc_groups self outfile [] infiles)
       (\<lambda>statement. Inr (join '' '' statement, self))"

definition FastQc_class :: "env \<Rightarrow> strategy" where
  "FastQc_class E = (Mapper_class E)\<lparr>mapper_m := FastQc_mapper\<rparr>"

section \<open>The class \<^verbatim>\<open>Counter\<close>\<close>

definition tmpl_counter :: string where
  \<open>tmpl_counter =
     ''zcat %(x)s\<newline>'' @
     ''                | awk '{n+=1;} END {printf("nreads'' @ [CHR 0x5C] @ ''t%%%%i'' @ [CHR 0x5C] @ ''n",n/4);}'\<newline>'' @
     ''                >> %(outfile)s;''\<close>

definition Counter_new :: mapper where
  "Counter_new = Mapper_new\<lparr>self_compress := True\<rparr>"

fun Counter_groups :: "string \<Rightarrow> string list \<Rightarrow> string list list \<Rightarrow> pyexc + string list" where
  "Counter_groups outfile statement [] = Inr statement"
| "Counter_groups outfile statement (f # infiles) =
     (case pyformat tmpl_counter [(''outfile'', outfile), (''x'', join '' '' f)] of
        Inl e \<Rightarrow> Inl e
      | Inr s \<Rightarrow> Counter_groups outfile (statement @ [s]) infiles)"

definition Counter_mapper :: "mapper \<Rightarrow> string list list \<Rightarrow> string \<Rightarrow> pyexc + (string \<times> mapper)" where
  \<comment> \<open>lines 917-929: no check of the number of files in a group\<close>
  "Counter_mapper self infiles outfile =
     and_then (Counter_groups outfile [] infiles)
       (\<lambda>statement. Inr (join '' '' statement, self))"

definition Counter_class :: "env \<Rightarrow> strategy" where
  "Counter_class E = (Mapper_class E)\<lparr>mapper_m := Counter_mapper\<rparr>"

section \<open>The class \<^verbatim>\<open>Sailfish\<close>\<close>

definition tmpl_sailfish_quant :: string where
  \<open>tmpl_sailfish_quant =
     ''sailfish quant -i %%(index)s''\<close>

definition tmpl_sailfish_paired :: string where
  \<open>tmpl_sailfish_paired =
     ''-1 <(zcat %(infile1)s)\<newline>'' @
     ''                            -2 <(zcat %(infile2)s)''\<close>

definition tmpl_sailfish_args :: string where
  \<open>tmpl_sailfish_args =
     ''-l %(library)s %(input_file)s -o %%(outdir)s\<newline>'' @
     ''                             -f --threads %(threads)s;''\<close>

definition tmpl_sailfish_postprocess :: string where
  \<open>tmpl_sailfish_postprocess =
     ''sed -i "s/# Transcript/Transcript/g"\<newline>'' @
     ''                     %%(outdir)s/quant.sf;\<newline>'' @
     ''                     mv %%(outdir)s/quant.sf\<newline>'' @
     ''                     %%(outdir)s/%%(sample)s_quant.sf;''\<close>

definition Sailfish_new :: "bool \<Rightarrow> string \<Rightarrow> string \<Rightarrow> string \<Rightarrow> mapper" where
  \<comment> \<open>lines 828-834\<close>
  "Sailfish_new compress strand orient threads =
     Mapper_new\<lparr>self_compress := compress, self_strand := strand, self_orient := orient,
                self_threads := threads\<rparr>"

definition Sailfish_mapper :: "mapper \<Rightarrow> string list list \<Rightarrow> string \<Rightarrow> pyexc + (string \<times> mapper)" where
  \<comment> \<open>lines 836-896.  \<^verbatim>\<open>strandedness\<close> and \<^verbatim>\<open>orientation\<close> are bound only when the
      option has one of the three known values; \<^verbatim>\<open>infiles[0]\<close> has \<open>nfiles\<close> entries
      where it is indexed.  The \<^verbatim>\<open>print\<close> of the paired branch is left out.\<close>
  \<open>Sailfish_mapper self infiles outfile =
     (let threads = self_threads self;
          d0 = [(''outfile'', outfile), (''threads'', threads)]
      in
      and_then (pyformat tmpl_sailfish_quant d0) (\<lambda>quant.
      let num_files = map length infiles in
      and_then (py_max num_files) (\<lambda>mx.
      and_then (py_min num_files) (\<lambda>mn.
        if mx \<noteq> mn then Inl (ValueError ''mixing single and paired-ended data not possible.'')
        else
          let nfiles = mx in
          if nfiles = 1 then
            (let input_file = ''-r <(zcat '' @ infiles ! 0 ! 0 @ '')'' in
             and_then
               (if self_strand self = ''sense'' then Inr ''S=S"''
                else if self_strand self = ''antisense'' then Inr ''S=A"''
                else if self_strand self = ''unknown'' then Inr ''S=U"''
                else Inl (UnboundLocalError ''strandedness''))
               (\<lambda>strandedness.
                  let library = concat [''"T=SE:'', strandedness] in
                  and_then (pyformat tmpl_sailfish_args
                              ((''library'', library) # (''input_file'', input_file) #
                               (''strandedness'', strandedness) # d0))
                    (\<lambda>args. Inr (join '' '' [quant, args], self))))
          else if nfiles = 2 then
            (let infile1 = infiles ! 0 ! 0; infile2 = infiles ! 0 ! 1;
                 d1 = (''infile1'', infile1) # (''infile2'', infile2) # d0
             in
             and_then (pyformat tmpl_sailfish_paired d1) (\<lambda>input_file.
             and_then
               (if self_orient self = ''towards'' then Inr ''O=><:''
                else if self_orient self = ''away'' then Inr ''O=<>:''
                else if self_orient self = ''same'' then Inr ''O=>>:''
                else Inl (UnboundLocalError ''orientation''))
               (\<lambda>orientation.
             and_then
               (if self_strand self = ''sense'' then Inr ''S=SA"''
                else if self_strand self = ''antisense'' then Inr ''S=AS"''
                else if self_strand self = ''unknown'' then Inr ''S=U"''
                else Inl (UnboundLocalError ''strandedness''))
               (\<lambda>strandedness.
                  let library = concat [''"T=PE:'', orientation, strandedness] in
                  and_then (pyformat tmpl_sailfish_args
                              ((''library'', library) # (''input_file'', input_file) #
                               (''orientation'', orientation) #
                               (''strandedness'', strandedness) # d1))
                    (\<lambda>args. Inr (join '' '' [quant, args], self))))))
          else Inl (ValueError ''incorrect number of input files'')))))\<close>

definition Sailfish_postprocess :: "mapper \<Rightarrow> string list \<Rightarrow> string \<Rightarrow> pyexc + (string \<times> mapper)" where
  \<comment> \<open>lines 898-908\<close>
  "Sailfish_postprocess self infiles outfile =
     and_then (pyformat tmpl_sailfish_postprocess [(''outfile'', outfile)])
       (\<lambda>statement. Inr (statement, self))"

definition Sailfish_class :: "env \<Rightarrow> strategy" where
  "Sailfish_class E =
     (Mapper_class E)\<lparr>mapper_m := Sailfish_mapper, postprocess_m := Sailfish_postprocess\<rparr>"

section \<open>The class \<^verbatim>\<open>BWA\<close>\<close>

definition tmpl_bwa_single :: string where
  \<open>tmpl_bwa_single =
     ''\<newline>'' @
     ''            bwa aln %%(bwa_aln_options)s -t %%(bwa_threads)i\<newline>'' @
     ''            %(index_prefix)s %(infiles)s\<newline>'' @
     ''            > %(tmpdir)s/%(track)s.sai 2>>%(outfile)s.bwa.log;\<newline>'' @
     ''            bwa samse %%(bwa_index_dir)s/%%(genome)s\<newline>'' @
     ''            %(tmpdir)s/%(track)s.sai %(infiles)s\<newline>'' @
     ''            > %(tmpdir)s/%(track)s.sam 2>>%(outfile)s.bwa.log;\<newline>            ''\<close>

definition tmpl_bwa_paired :: string where
  \<open>tmpl_bwa_paired =
     ''\<newline>'' @
     ''            bwa aln %%(bwa_aln_options)s -t %%(bwa_threads)i\<newline>'' @
     ''            %(index_prefix)s %(infiles1)s\<newline>'' @
     ''            > %(tmpdir)s/%(track1)s.sai 2>>%(outfile)s.bwa.log; checkpoint;\<newline>'' @
     ''            bwa aln %%(bwa_aln_options)s -t %%(bwa_threads)i\<newline>'' @
     ''            %(index_prefix)s %(infiles2)s\<newline>'' @
     ''            > %(tmpdir)s/%(track2)s.sai 2>>%(outfile)s.bwa.log; checkpoint;\<newline>'' @
     ''            bwa sampe %%(bwa_sampe_options)s %(index_prefix)s\<newline>'' @
     ''                      %(tmpdir)s/%(track1)s.sai %(tmpdir)s/%(track2)s.sai\<newline>'' @
     ''                      %(infiles1)s %(infiles2)s\<newline>'' @
     ''            > %(tmpdir)s/%(track)s.sam 2>>%(outfile)s.bwa.log;\<newline>            ''\<close>

definition tmpl_bwa_unique :: string where
  \<open>tmpl_bwa_unique =
     ''| python %%(scriptsdir)s/bam2bam.py\<newline>'' @
     ''            --method=filter\<newline>'' @
     ''            --filter-method=unique, mapped\<newline>'' @
     ''            --log=%(outfile)s.log''\<close>

definition tmpl_bwa_strip :: string where
  \<open>tmpl_bwa_strip =
     ''| python %%(scriptsdir)s/bam2bam.py\<newline>'' @
     ''            --strip-method=all\<newline>'' @
     ''            --method=strip-sequence\<newline>'' @
     ''            --log=%(outfile)s.log''\<close>

definition tmpl_bwa_set_nh :: string where
  \<open>tmpl_bwa_set_nh =
     ''| python %%(scriptsdir)s/bam2bam.py\<newline>'' @
     ''            --method=set-nh\<newline>'' @
     ''            --log=%(outfile)s.log''\<close>

definition tmpl_bwa_postprocess :: string where
  \<open>tmpl_bwa_postprocess =
     ''\<newline>'' @
     ''                samtools view -uS %(tmpdir)s/%(track)s.sam\<newline>'' @
     ''                %(unique_cmd)s\<newline>'' @
     ''                %(strip_cmd)s\<newline>'' @
     ''                %(set_nh_cmd)s\<newline>'' @
     ''                | samtools sort - %(outf)s 2>>%(outfile)s.bwa.log;\<newline>'' @
     ''                samtools index %(outfile)s;''\<close>

definition digit_char :: "nat \<Rightarrow> char" where
  "digit_char n = char_of (48 + n)"

fun decimal :: "nat \<Rightarrow> string" where
  \<comment> \<open>\<^verbatim>\<open>"%i" % n\<close> for a number that is not negative\<close>
  "decimal n = (if n < 10 then [digit_char n] else decimal (n div 10) @ [digit_char (n mod 10)])"

declare decimal.simps [simp del]

definition BWA_new :: "bool \<Rightarrow> bool \<Rightarrow> bool \<Rightarrow> bool \<Rightarrow> mapper" where
  \<comment> \<open>lines 942-948; \<open>remove_non_unique\<close> reaches \<^verbatim>\<open>Mapper.__init__\<close> as a keyword\<close>
  "BWA_new remove_unique strip_sequence set_nh remove_non_unique =
     Mapper_new\<lparr>self_remove_non_unique := remove_non_unique,
                self_remove_unique := remove_unique, self_strip_sequence := strip_sequence,
                self_set_nh := set_nh\<rparr>"

definition BWA_mapper :: "env \<Rightarrow> mapper \<Rightarrow> string list list \<Rightarrow> string \<Rightarrow> pyexc + (string \<times> mapper)" where
  \<comment> \<open>lines 950-1018.  \<^verbatim>\<open>os.path.join\<close> is called with one argument, the
      concatenation of \<^verbatim>\<open>self.tmpdir_fastq\<close> and \<^verbatim>\<open>bwa\<close>, which it returns unchanged.
      Every group has \<open>nfiles\<close> entries where it is indexed.\<close>
  "BWA_mapper E self infiles outfile =
     (let num_files = map length infiles in
      and_then (py_max num_files) (\<lambda>mx.
      and_then (py_min num_files) (\<lambda>mn.
        if mx \<noteq> mn then Inl (ValueError ''mixing single and paired-ended data not possible.'')
        else
          let nfiles = mx in
          and_then (attr ''tmpdir_fastq'' (self_tmpdir_fastq self)) (\<lambda>tmpdir_fastq.
          let tmpdir = tmpdir_fastq @ ''bwa'';
              statement = [''mkdir -p '' @ tmpdir @ '';''];
              data_options = join '' '' (if self_datatype self = ''solid''
                                         then [''%(bwa_aln_options)s'', ''-c'']
                                         else [''%(bwa_aln_options)s'']);
              index_prefix = (if self_datatype self = ''solid''
                              then ''%(bwa_index_dir)s/%(genome)s_cs''
                              else ''%(bwa_index_dir)s/%(genome)s'')
          in
          and_then (snip E (basename outfile) ''.bam'') (\<lambda>track.
          let d = [(''outfile'', outfile), (''tmpdir'', tmpdir), (''tmpdir_fastq'', tmpdir_fastq),
                   (''data_options'', data_options), (''index_prefix'', index_prefix),
                   (''track'', track)]
          in
          if nfiles = 1 then
            (let infiles1 = join '','' (map (\<lambda>x. quoteFile self (x ! 0)) infiles) in
             and_then (pyformat tmpl_bwa_single ((''infiles'', infiles1) # d)) (\<lambda>s.
               Inr (join '' '' (statement @ [s]), self\<lparr>self_tmpdir := Some tmpdir\<rparr>)))
          else if nfiles = 2 then
            (let track1 = track @ ''.1'';
                 track2 = track @ ''.2'';
                 infiles1 = join '','' (map (\<lambda>x. quoteFile self (x ! 0)) infiles);
                 infiles2 = join '','' (map (\<lambda>x. quoteFile self (x ! 1)) infiles)
             in
             and_then (pyformat tmpl_bwa_paired
                         ((''track1'', track1) # (''track2'', track2) #
                          (''infiles1'', infiles1) # (''infiles2'', infiles2) # d)) (\<lambda>s.
               Inr (join '' '' (statement @ [s]), self\<lparr>self_tmpdir := Some tmpdir\<rparr>)))
          else
            Inl (ValueError (''unexpected number read files to map: '' @ decimal nfiles @ '' '')))))))"

definition BWA_postprocess :: "env \<Rightarrow> mapper \<Rightarrow> string list \<Rightarrow> string \<Rightarrow> pyexc + (string \<times> mapper)" where
  \<comment> \<open>lines 1020-1055\<close>
  "BWA_postprocess E self infiles outfile =
     and_then (snip E (basename outfile) ''.bam'') (\<lambda>track.
     and_then (snip E outfile ''.bam'') (\<lambda>outf.
     and_then (attr ''tmpdir'' (self_tmpdir self)) (\<lambda>tmpdir.
     let d = [(''outfile'', outfile), (''track'', track), (''outf'', outf), (''tmpdir'', tmpdir)] in
     and_then (if self_remove_non_unique self then pyformat tmpl_bwa_unique d else Inr '''')
       (\<lambda>unique_cmd.
     and_then (if self_strip_sequence self then pyformat tmpl_bwa_strip d else Inr '''')
       (\<lambda>strip_cmd.
     and_then (if self_set_nh self then pyformat tmpl_bwa_set_nh d else Inr '''')
       (\<lambda>set_nh_cmd.
     and_then (pyformat tmpl_bwa_postprocess
                 ((''unique_cmd'', unique_cmd) # (''strip_cmd'', strip_cmd) #
                  (''set_nh_cmd'', set_nh_cmd) # d))
       (\<lambda>statement. Inr (statement, self))))))))"

definition BWA_class :: "env \<Rightarrow> strategy" where
  \<comment> \<open>\<^verbatim>\<open>cleanup\<close> is the one of \<^verbatim>\<open>Mapper\<close>\<close>
  "BWA_class E =
     (Mapper_class E)\<lparr>mapper_m := BWA_mapper E, postprocess_m := BWA_postprocess E\<rparr>"

definition Butter_cleanup :: "mapper \<Rightarrow> string \<Rightarrow> pyexc + (string \<times> mapper)" where
  \<comment> \<open>lines 1401-1405: the subclass \<^verbatim>\<open>Butter\<close> of \<^verbatim>\<open>BWA\<close> removes both directories\<close>
  "Butter_cleanup self outfile =
     and_then (attr ''tmpdir_fastq'' (self_tmpdir_fastq self)) (\<lambda>tmpdir_fastq.
     and_then (attr ''tmpdir'' (self_tmpdir self)) (\<lambda>tmpdir.
       Inr (''rm -rf '' @ tmpdir_fastq @ '' '' @ tmpdir @ '';'', self)))"

section \<open>The class \<^verbatim>\<open>Tophat\<close>\<close>

definition tmpl_tophat_single :: string where
  \<open>tmpl_tophat_single =
     ''\<newline>'' @
     ''            %(executable)s --output-dir %(tmpdir_tophat)s\<newline>'' @
     ''                   --num-threads %%(tophat_threads)i\<newline>'' @
     ''                   --library-type %%(tophat_library_type)s\<newline>'' @
     ''                   %(data_options)s\<newline>'' @
     ''                   %%(tophat_options)s\<newline>'' @
     ''                   %(index_prefix)s\<newline>'' @
     ''                   %(infiles)s\<newline>'' @
     ''                   >> %(outfile)s.log 2>&1 ;\<newline>'' @
     ''            ''\<close>

definition tmpl_tophat_paired :: string where
  \<open>tmpl_tophat_paired =
     ''\<newline>'' @
     ''            %(executable)s --output-dir %(tmpdir_tophat)s\<newline>'' @
     ''                   --mate-inner-dist %%(tophat_mate_inner_dist)i\<newline>'' @
     ''                    --num-threads %%(tophat_threads)i\<newline>'' @
     ''                   --library-type %%(tophat_library_type)s\<newline>'' @
     ''                   %(data_options)s\<newline>'' @
     ''                   %%(tophat_options)s\<newline>'' @
     ''                   %(index_prefix)s\<newline>'' @
     ''                   %(infiles1)s %(infiles2)s\<newline>'' @
     ''                   >> %(outfile)s.log 2>&1 ;\<newline>'' @
     ''            ''\<close>

definition tmpl_tophat_quals :: string where
  \<open>tmpl_tophat_quals =
     ''%(executable)s\<newline>'' @
     ''                   --output-dir %(tmpdir_tophat)s\<newline>'' @
     ''                   --mate-inner-dist %%(tophat_mate_inner_dist)i\<newline>'' @
     ''                   --num-threads %%(tophat_threads)i\<newline>'' @
     ''                   --library-type %%(tophat_library_type)s\<newline>'' @
     ''                   %(data_options)s\<newline>'' @
     ''                   %%(tophat_options)s\<newline>'' @
     ''                   %(index_prefix)s\<newline>'' @
     ''                   %(infiles1)s %(infiles2)s\<newline>'' @
     ''                   %(infiles3)s %(infiles4)s\<newline>'' @
     ''                   >> %(outfile)s.log 2>&1 ;\<newline>'' @
     ''            ''\<close>

definition tmpl_tophat_postprocess :: string where
  \<open>tmpl_tophat_postprocess =
     ''\<newline>'' @
     ''        gzip < %(tmpdir_tophat)s/junctions.bed\<newline>'' @
     ''        > %(track)s.junctions.bed.gz;\<newline>'' @
     ''        mv %(tmpdir_tophat)s/logs %(outfile)s.logs;\<newline>'' @
     ''        mv %(tmpdir_tophat)s/accepted_hits.bam %(outfile)s;\<newline>'' @
     ''        samtools index %(outfile)s;\<newline>'' @
     ''        ''\<close>

definition Tophat_new :: "string option \<Rightarrow> bool \<Rightarrow> bool \<Rightarrow> mapper" where
  \<comment> \<open>the class attributes of lines 1410-1416 and \<^verbatim>\<open>Mapper.__init__\<close> (lines 398-404): an
      executable that is given and not empty replaces the one of the class\<close>
  "Tophat_new executable strip_sequence remove_non_unique =
     Mapper_new\<lparr>self_preserve_colourspace := True, self_compress := True,
                self_strip_sequence := strip_sequence,
                self_remove_non_unique := remove_non_unique,
                self_executable := Some (case executable of
                                           Some e \<Rightarrow> if e \<noteq> [] then e else ''tophat''
                                         | None \<Rightarrow> ''tophat'')\<rparr>"

definition Tophat_mapper :: "mapper \<Rightarrow> string list list \<Rightarrow> string \<Rightarrow> pyexc + (string \<times> mapper)" where
  \<comment> \<open>lines 1421-1505.  \<^verbatim>\<open>os.path.join\<close> is called with one argument, as in \<^verbatim>\<open>BWA\<close>.
      Every group has \<open>nfiles\<close> entries where it is indexed.\<close>
  "Tophat_mapper self infiles outfile =
     and_then (attr ''executable'' (self_executable self)) (\<lambda>executable.
     let num_files = map length infiles in
     and_then (py_max num_files) (\<lambda>mx.
     and_then (py_min num_files) (\<lambda>mn.
       if mx \<noteq> mn then Inl (ValueError ''mixing single and paired-ended data not possible.'')
       else
         let nfiles = mx in
         and_then (attr ''tmpdir_fastq'' (self_tmpdir_fastq self)) (\<lambda>tmpdir_fastq.
         let tmpdir_tophat = tmpdir_fastq @ ''tophat'';
             data_options = join '' '' (if self_datatype self = ''solid''
                                        then [''--quals --integer-quals --color'']
                                        else []);
             index_prefix = (if self_datatype self = ''solid''
                             then ''%(bowtie_index_dir)s/%(genome)s_cs''
                             else ''%(bowtie_index_dir)s/%(genome)s'');
             d = [(''outfile'', outfile), (''executable'', executable),
                  (''tmpdir_tophat'', tmpdir_tophat), (''tmpdir_fastq'', tmpdir_fastq),
                  (''data_options'', data_options), (''index_prefix'', index_prefix)]
         in
         if nfiles = 1 then
           (let infiles1 = join '','' (map (\<lambda>x. x ! 0) infiles) in
            and_then (pyformat tmpl_tophat_single ((''infiles'', infiles1) # d)) (\<lambda>statement.
              Inr (statement, self\<lparr>self_tmpdir_tophat := Some tmpdir_tophat\<rparr>)))
         else if nfiles = 2 then
           (let infiles1 = join '','' (map (\<lambda>x. x ! 0) infiles);
                infiles2 = join '','' (map (\<lambda>x. x ! 1) infiles)
            in
            and_then (pyformat tmpl_tophat_paired
                        ((''infiles1'', infiles1) # (''infiles2'', infiles2) # d)) (\<lambda>statement.
              Inr (statement, self\<lparr>self_tmpdir_tophat := Some tmpdir_tophat\<rparr>)))
         else if nfiles = 4 then
           (let infiles1 = join '','' (map (\<lambda>x. x ! 0) infiles);
                infiles2 = join '','' (map (\<lambda>x. x ! 1) infiles);
                infiles3 = join '','' (map (\<lambda>x. x ! 2) infiles);
                infiles4 = join '','' (map (\<lambda>x. x ! 3) infiles)
            in
            and_then (pyformat tmpl_tophat_quals
                        ((''infiles1'', infiles1) # (''infiles2'', infiles2) #
                         (''infiles3'', infiles3) # (''infiles4'', infiles4) # d)) (\<lambda>statement.
              Inr (statement, self\<lparr>self_tmpdir_tophat := Some tmpdir_tophat\<rparr>)))
         else
           Inl (ValueError (''unexpected number reads to map: '' @ decimal nfiles @ '' ''))))))"

definition Tophat_postprocess :: "env \<Rightarrow> mapper \<Rightarrow> string list \<Rightarrow> string \<Rightarrow> pyexc + (string \<times> mapper)" where
  \<comment> \<open>lines 1507-1521\<close>
  "Tophat_postprocess E self infiles outfile =
     and_then (snip E outfile ''.bam'') (\<lambda>track.
     and_then (attr ''tmpdir_tophat'' (self_tmpdir_tophat self)) (\<lambda>tmpdir_tophat.
     and_then (pyformat tmpl_tophat_postprocess
                 [(''outfile'', outfile), (''track'', track), (''tmpdir_tophat'', tmpdir_tophat)])
       (\<lambda>statement. Inr (statement, self))))"

definition Tophat_class :: "env \<Rightarrow> strategy" where
  \<comment> \<open>\<^verbatim>\<open>cleanup\<close> is the one of \<^verbatim>\<open>Mapper\<close>\<close>
  "Tophat_class E =
     (Mapper_class E)\<lparr>mapper_m := Tophat_mapper, postprocess_m := Tophat_postprocess E\<rparr>"

section \<open>The statements written out\<close>

text \<open>
  The text that a template takes once its placeholders are filled, as a function of the
  values filled in.  The lemmas \<open>counter_format\<close>, \<open>bwa_single_format\<close>,
  \<open>bwa_paired_format\<close> and \<open>bwa_postprocess_format\<close> below prove that filling the
  template of the source gives this text.
\<close>

definition counter_text :: "string \<Rightarrow> string \<Rightarrow> string" where
  \<comment> \<open>the statement of lines 926-928 with its placeholders filled\<close>
  \<open>counter_text x outfile =
     (''zcat '' @ x @ ''\<newline>'') @
     (''                | awk '{n+=1;} END {printf("nreads'' @ [CHR 0x5C] @ ''t%%i'' @ [CHR 0x5C] @
      ''n",n/4);}'\<newline>'') @
     (''                >> '' @ outfile @ '';'')\<close>

definition bwa_single_text :: "string \<Rightarrow> string \<Rightarrow> string \<Rightarrow> string \<Rightarrow> string \<Rightarrow> string" where
  \<comment> \<open>the single-end fragment of lines 985-992 with its placeholders filled\<close>
  "bwa_single_text index_prefix infiles tmpdir track outfile =
     ''\<newline>'' @
     ''            bwa aln %(bwa_aln_options)s -t %(bwa_threads)i\<newline>'' @
     (''            '' @ index_prefix @ '' '' @ infiles @ ''\<newline>'') @
     (''            > '' @ tmpdir @ ''/'' @ track @ ''.sai 2>>'' @ outfile @
         ''.bwa.log;\<newline>'') @
     ''            bwa samse %(bwa_index_dir)s/%(genome)s\<newline>'' @
     (''            '' @ tmpdir @ ''/'' @ track @ ''.sai '' @ infiles @ ''\<newline>'') @
     (''            > '' @ tmpdir @ ''/'' @ track @ ''.sam 2>>'' @ outfile @
         ''.bwa.log;\<newline>            '')"

definition bwa_paired_text :: "string \<Rightarrow> string \<Rightarrow> string \<Rightarrow> string \<Rightarrow> string \<Rightarrow>
     string \<Rightarrow> string \<Rightarrow> string \<Rightarrow> string" where
  \<comment> \<open>the paired-end fragment of lines 1000-1011 with its placeholders filled\<close>
  "bwa_paired_text index_prefix infiles1 tmpdir track1 outfile infiles2 track2 track =
     ''\<newline>'' @
     ''            bwa aln %(bwa_aln_options)s -t %(bwa_threads)i\<newline>'' @
     (''            '' @ index_prefix @ '' '' @ infiles1 @ ''\<newline>'') @
     (''            > '' @ tmpdir @ ''/'' @ track1 @ ''.sai 2>>'' @ outfile @
         ''.bwa.log; checkpoint;\<newline>'') @
     ''            bwa aln %(bwa_aln_options)s -t %(bwa_threads)i\<newline>'' @
     (''            '' @ index_prefix @ '' '' @ infiles2 @ ''\<newline>'') @
     (''            > '' @ tmpdir @ ''/'' @ track2 @ ''.sai 2>>'' @ outfile @
         ''.bwa.log; checkpoint;\<newline>'') @
     (''            bwa sampe %(bwa_sampe_options)s '' @ index_prefix @ ''\<newline>'') @
     (''                      '' @ tmpdir @ ''/'' @ track1 @ ''.sai '' @ tmpdir @ ''/'' @
         track2 @ ''.sai\<newline>'') @
     (''                      '' @ infiles1 @ '' '' @ infiles2 @ ''\<newline>'') @
     (''            > '' @ tmpdir @ ''/'' @ track @ ''.sam 2>>'' @ outfile @
         ''.bwa.log;\<newline>            '')"

definition bwa_postprocess_text :: "string \<Rightarrow> string \<Rightarrow> string \<Rightarrow> string \<Rightarrow> string \<Rightarrow> string \<Rightarrow> string \<Rightarrow> string" where
  \<comment> \<open>the statement of lines 1047-1053 with its placeholders filled\<close>
  "bwa_postprocess_text tmpdir track unique_cmd strip_cmd set_nh_cmd outf outfile =
     ''\<newline>'' @
     (''                samtools view -uS '' @ tmpdir @ ''/'' @ track @ ''.sam\<newline>'') @
     (''                '' @ unique_cmd @ ''\<newline>'') @
     (''                '' @ strip_cmd @ ''\<newline>'') @
     (''                '' @ set_nh_cmd @ ''\<newline>'') @
     (''                | samtools sort - '' @ outf @ '' 2>>'' @ outfile @
         ''.bwa.log;\<newline>'') @
     (''                samtools index '' @ outfile @ '';'')"

section \<open>The words of the specification\<close>

text \<open>
  The specification names error kinds where the code raises Python exceptions.
  \<open>spec_error\<close> gives each exception of the modelled code the kind that the
  specification uses for its raise site: \<^verbatim>\<open>NotImplementedError\<close> is raised for an unknown
  suffix only, the \<^verbatim>\<open>ValueError\<close>s are told apart by their messages, and the
  assertions of \<^verbatim>\<open>build\<close> carry no message.
\<close>

datatype error_kind =
    UnsupportedFormat | MissingMate | ArityMismatch | UnsupportedArity
  | MalformedFragment | EmptyInput | OtherError

definition spec_error :: "pyexc \<Rightarrow> error_kind" where
  "spec_error e =
     (case e of
        NotImplementedError m \<Rightarrow> UnsupportedFormat
      | ValueError m \<Rightarrow>
          if prefix ''can not find paired ended file'' m then MissingMate
          else if m = ''mixing single and paired-ended data not possible.'' then ArityMismatch
          else if prefix ''unexpected number read files to map'' m
                  \<or> prefix ''unexpected number reads to map'' m
                  \<or> m = ''incorrect number of input files'' then UnsupportedArity
          else OtherError
      | AssertionError m \<Rightarrow>
          if m = ''no input files for mapping'' then EmptyInput
          else if m = [] then MalformedFragment
          else OtherError
      | _ \<Rightarrow> OtherError)"

definition spec_plan :: "string list \<Rightarrow> string" where
  \<comment> \<open>the plan as the specification words it: the empty fragments are dropped, the
      others are joined by the barrier\<close>
  "spec_plan fragments = join '' checkpoint; '' (filter (\<lambda>f. f \<noteq> []) fragments)"

definition spec_malformed :: "string list \<Rightarrow> bool" where
  \<comment> \<open>the failure condition as the specification words it: some fragment is not empty
      and does not end with the terminator\<close>
  "spec_malformed fragments = list_ex (\<lambda>f. f \<noteq> [] \<and> \<not> endswith f '';'') fragments"

definition fragment :: "pyexc + ('a \<times> 'b) \<Rightarrow> pyexc + 'a" where
  \<comment> \<open>what a phase returns, without the object\<close>
  "fragment r = map_sum id fst r"

section \<open>An example environment\<close>

text \<open>
  The examples run in a job whose temporary directory is \<^verbatim>\<open>/tmp/ctmpX\<close>, on a file
  system that holds \<^verbatim>\<open>a.fastq.gz\<close>, \<^verbatim>\<open>b.fastq.1.gz\<close> and \<^verbatim>\<open>b.fastq.2.gz\<close>, all
  with Sanger qualities.  \<^verbatim>\<open>P.snip\<close> is taken to remove the extension and to raise
  \<^verbatim>\<open>ValueError\<close> when the name does not end in it.
\<close>

definition snip_suffix :: "string \<Rightarrow> string \<Rightarrow> pyexc + string" where
  "snip_suffix filename extension =
     (if endswith filename extension
      then Inr (take (length filename - length extension) filename)
      else Inl (ValueError ([CHR 0x27] @ filename @ [CHR 0x27] @ '' expected to end in '' @
                            [CHR 0x27] @ extension @ [CHR 0x27])))"

definition demo_env :: env where
  "demo_env =
     \<lparr>getTempDir = ''/tmp/ctmpX'',
      path_exists = (\<lambda>p. p = ''a.fastq.gz'' \<or> p = ''b.fastq.1.gz'' \<or> p = ''b.fastq.2.gz''),
      snip = snip_suffix,
      guessFormat = (\<lambda>f. Inr [''sanger'']),
      sra_peek = (\<lambda>f. Inl (IOError f)),
      sra_extract = (\<lambda>f d. [])\<rparr>"

section \<open>Auxiliary facts\<close>

lemma and_then_Inr [simp]: "and_then (Inr x) f = f x"
  by (simp add: and_then_def)

lemma and_then_Inl [simp]: "and_then (Inl e) f = Inl e"
  by (simp add: and_then_def)

lemma and_then_eq_Inr:
  "and_then m f = Inr y \<longleftrightarrow> (\<exists>x. m = Inr x \<and> f x = Inr y)"
  by (cases m) simp_all

lemma fold_max_const: "\<forall>x\<in>set xs. x = n \<Longrightarrow> fold max xs (n::nat) = n"
  by (induction xs) simp_all

lemma fold_min_const: "\<forall>x\<in>set xs. x = n \<Longrightarrow> fold min xs (n::nat) = n"
  by (induction xs) simp_all

lemma py_max_uniform:
  assumes "infiles \<noteq> []" and "\<forall>g\<in>set infiles. length g = n"
  shows "py_max (map length infiles) = Inr n"
proof (cases infiles)
  case Nil
  with assms(1) show ?thesis by simp
next
  case (Cons g gs)
  with assms(2) have "length g = n" and "\<forall>x\<in>set (map length gs). x = n" by auto
  with Cons show ?thesis by (simp add: py_max_def fold_max_const)
qed

lemma py_min_uniform:
  assumes "infiles \<noteq> []" and "\<forall>g\<in>set infiles. length g = n"
  shows "py_min (map length infiles) = Inr n"
proof (cases infiles)
  case Nil
  with assms(1) show ?thesis by simp
next
  case (Cons g gs)
  with assms(2) have "length g = n" and "\<forall>x\<in>set (map length gs). x = n" by auto
  with Cons show ?thesis by (simp add: py_min_def fold_min_const)
qed

lemma py_max_Max: "xs \<noteq> [] \<Longrightarrow> py_max xs = Inr (Max (set xs))"
proof (cases xs)
  case Nil
  assume "xs \<noteq> []"
  with Nil show ?thesis by simp
next
  case (Cons a list)
  show ?thesis unfolding Cons py_max_def using Max.set_eq_fold [of a list] by simp
qed

lemma py_min_Min: "xs \<noteq> [] \<Longrightarrow> py_min xs = Inr (Min (set xs))"
proof (cases xs)
  case Nil
  assume "xs \<noteq> []"
  with Nil show ?thesis by simp
next
  case (Cons a list)
  show ?thesis unfolding Cons py_min_def using Min.set_eq_fold [of a list] by simp
qed

lemma mixed_Max_neq_Min:
  assumes "a \<in> set xs" and "b \<in> set xs" and "a \<noteq> (b::nat)"
  shows "Max (set xs) \<noteq> Min (set xs)"
proof
  assume eq: "Max (set xs) = Min (set xs)"
  have "a \<le> Max (set xs)" and "Min (set xs) \<le> a" using assms(1) by simp_all
  moreover have "b \<le> Max (set xs)" and "Min (set xs) \<le> b" using assms(2) by simp_all
  ultimately show False using eq assms(3) by simp
qed

lemma sailfish_quant:
  "pyformat tmpl_sailfish_quant d = Inr ''sailfish quant -i %(index)s''"
  by (simp add: pyformat_def tmpl_sailfish_quant_def prepend_def)

lemma FastQc_statement_nogroup:
  "self_nogroup self \<Longrightarrow> FastQc_statement self outfile x = Inl (KeyError ''contaminats'')"
  by (simp add: FastQc_statement_def Let_def pyformat_def tmpl_fastqc_nogroup_def prepend_def
           split: option.splits)

lemma FastQc_files_nogroup:
  "self_nogroup self \<Longrightarrow> f \<noteq> [] \<Longrightarrow>
   FastQc_files self outfile statement f = Inl (KeyError ''contaminats'')"
  by (cases f) (simp_all add: FastQc_statement_nogroup)

lemma FastQc_files_empty: "FastQc_files self outfile statement [] = Inr statement"
  by simp

lemma FastQc_groups_nogroup:
  "self_nogroup self \<Longrightarrow> \<exists>f\<in>set infiles. f \<noteq> [] \<Longrightarrow>
   FastQc_groups self outfile statement infiles = Inl (KeyError ''contaminats'')"
proof (induction infiles arbitrary: statement)
  case Nil
  then show ?case by simp
next
  case (Cons f infiles)
  show ?case
  proof (cases "f = []")
    case True
    with Cons.prems have "\<exists>f\<in>set infiles. f \<noteq> []" by simp
    with Cons.IH [OF Cons.prems(1)] True show ?thesis by simp
  next
    case False
    with Cons.prems(1) show ?thesis by (simp add: FastQc_files_nogroup)
  qed
qed

section \<open>The claims about the mappers of \<^verbatim>\<open>FastQc\<close> and \<^verbatim>\<open>Sailfish\<close>\<close>

text \<open>
  C10.  With the option \<^verbatim>\<open>nogroup\<close> set, the \<^verbatim>\<open>mapper\<close> of \<^verbatim>\<open>FastQc\<close> raises for
  every list of file groups that holds at least one file: the template of lines 774-776
  refers to the name \<^verbatim>\<open>contaminats\<close>, which no local carries, so filling it for the
  first file raises \<^verbatim>\<open>KeyError\<close> and no fragment is returned.  (A file group of the
  specification has one, two or four files, so every non-empty list of groups holds a
  file.)
\<close>

theorem FastQc_nogroup_raises:
  assumes "self_nogroup self" and "\<exists>f\<in>set infiles. f \<noteq> []"
  shows "FastQc_mapper self infiles outfile = Inl (KeyError ''contaminats'')"
  using assms by (simp add: FastQc_mapper_def FastQc_groups_nogroup)

theorem FastQc_nogroup_raises_witness:
  "self_nogroup (FastQc_new True ''.'' None) \<and> (\<exists>f\<in>set [[''a.fastq.gz'']]. f \<noteq> []) \<and>
   FastQc_mapper (FastQc_new True ''.'' None) [[''a.fastq.gz'']] ''a.fastqc'' =
     Inl (KeyError ''contaminats'')"
proof -
  have h1: "self_nogroup (FastQc_new True ''.'' None)"
    by (simp add: FastQc_new_def Mapper_new_def)
  have h2: "\<exists>f\<in>set [[''a.fastq.gz'']]. f \<noteq> []" by simp
  from FastQc_nogroup_raises [OF h1 h2, of "''a.fastqc''"] h1 h2 show ?thesis by simp
qed

text \<open>
  C7.  \<^verbatim>\<open>Sailfish\<close> supports one or two files per group.  Given groups that all have
  \<open>n\<close> files, \<open>n\<close> neither 1 nor 2 (four, for instance), its \<^verbatim>\<open>mapper\<close> raises
  \<^verbatim>\<open>ValueError("incorrect number of input files")\<close>, the specification's
  \<open>UnsupportedArity\<close>, and returns no fragment.
\<close>

theorem Sailfish_unsupported_arity:
  assumes "infiles \<noteq> []" and "\<forall>g\<in>set infiles. length g = n" and "n \<noteq> 1" and "n \<noteq> 2"
  shows "Sailfish_mapper self infiles outfile =
           Inl (ValueError ''incorrect number of input files'')
         \<and> spec_error (ValueError ''incorrect number of input files'') = UnsupportedArity"
proof -
  have mx: "py_max (map length infiles) = Inr n" using assms(1,2) by (rule py_max_uniform)
  have mn: "py_min (map length infiles) = Inr n" using assms(1,2) by (rule py_min_uniform)
  have "Sailfish_mapper self infiles outfile =
          Inl (ValueError ''incorrect number of input files'')"
    using assms(3,4) by (simp add: Sailfish_mapper_def Let_def sailfish_quant mx mn)
  moreover have "spec_error (ValueError ''incorrect number of input files'') = UnsupportedArity"
    by (simp add: spec_error_def)
  ultimately show ?thesis by simp
qed

theorem Sailfish_unsupported_arity_witness:
  "Sailfish_mapper (Sailfish_new True ''unknown'' ''towards'' ''4'')
       [[''r1'', ''r2'', ''q1'', ''q2'']] ''quant.sf'' =
     Inl (ValueError ''incorrect number of input files'')"
proof -
  have h1: "[[''r1'', ''r2'', ''q1'', ''q2'']] \<noteq> []" by simp
  have h2: "\<forall>g\<in>set [[''r1'', ''r2'', ''q1'', ''q2'']]. length g = 4" by simp
  have h3: "(4::nat) \<noteq> 1" and h4: "(4::nat) \<noteq> 2" by simp_all
  from Sailfish_unsupported_arity [OF h1 h2 h3 h4] show ?thesis by simp
qed

subsection \<open>Facts about \<^verbatim>\<open>preprocess\<close>\<close>

lemmas demo_simps = demo_env_def snip_suffix_def endswith_def Mapper_new_def Let_def
  basename_def splitext_root_def fragment_def

lemma pp_export_group:
  "pp_export outfile t cc ext (st, fq, tr, self) infile = Inr (st', fq', tr', self') \<Longrightarrow>
   \<exists>g. fq' = fq @ [g] \<and> length g = 1"
  by (auto simp: pp_export_def and_then_def split: sum.splits)

lemma pp_fa_group:
  "pp_fa outfile t cc ext (st, fq, tr, self) infile = Inr (st', fq', tr', self') \<Longrightarrow>
   \<exists>g. fq' = fq @ [g] \<and> length g = 1"
  by (auto simp: pp_fa_def and_then_def split: sum.splits)

lemma pp_fastq_group:
  "pp_fastq E outfile t cc ext (st, fq, tr, self) infile = Inr (st', fq', tr', self') \<Longrightarrow>
   \<exists>g. fq' = fq @ [g] \<and> length g = 1"
  by (auto simp: pp_fastq_def and_then_def split: sum.splits if_splits)

lemma pp_csfasta_group:
  "pp_csfasta E outfile t cc ext (st, fq, tr, self) infile = Inr (st', fq', tr', self') \<Longrightarrow>
   \<exists>g. fq' = fq @ [g] \<and> (length g = 1 \<or> length g = 2)"
  by (auto simp: pp_csfasta_def and_then_def Let_def split: sum.splits if_splits)

lemma pp_F3_files_length:
  "pp_F3_files E d sfxs (st, f) = Inr (st', f') \<Longrightarrow> length f' = length f + length sfxs"
proof (induction sfxs arbitrary: st f)
  case Nil
  then show ?case by simp
next
  case (Cons sfx rest)
  then show ?case by (auto split: sum.splits if_splits)
qed

lemma pp_csfasta_F3_group:
  "pp_csfasta_F3 E outfile t cc ext (st, fq, tr, self) infile = Inr (st', fq', tr', self') \<Longrightarrow>
   \<exists>g. fq' = fq @ [g] \<and> (length g = 1 \<or> length g = 4)"
  by (auto simp: pp_csfasta_F3_def and_then_def Let_def
           split: sum.splits if_splits prod.splits dest!: pp_F3_files_length)

lemma pp_fastq1_group:
  "pp_fastq1 E outfile t cc ext (st, fq, tr, self) infile = Inr (st', fq', tr', self') \<Longrightarrow>
   \<exists>g. fq' = fq @ [g] \<and> length g = 2"
  by (auto simp: pp_fastq1_def and_then_def Let_def split: sum.splits if_splits)

lemma preprocess_step_group:
  assumes "preprocess_step E outfile t cc ext (st, fq, tr, self) infile = Inr (st', fq', tr', self')"
      and "\<not> endswith infile ''.sra''"
  shows "\<exists>g. fq' = fq @ [g] \<and> (length g = 1 \<or> length g = 2 \<or> length g = 4)"
  using assms
  by (auto simp: preprocess_step_def split: if_splits
           dest: pp_export_group pp_fa_group pp_fastq_group pp_csfasta_group
                 pp_csfasta_F3_group pp_fastq1_group)

lemma preprocess_loop_groups:
  assumes "preprocess_loop E outfile t cc ext (st, fq, tr, self) infiles = Inr (st', fq', tr', self')"
      and "\<forall>x\<in>set infiles. \<not> endswith x ''.sra''"
  shows "\<exists>gs. fq' = fq @ gs \<and> length gs = length infiles \<and>
              (\<forall>g\<in>set gs. length g = 1 \<or> length g = 2 \<or> length g = 4)"
  using assms
proof (induction infiles arbitrary: st fq tr self)
  case Nil
  then show ?case by simp
next
  case (Cons infile infiles)
  from Cons.prems(1) obtain st1 fq1 tr1 self1 where
    step: "preprocess_step E outfile t cc ext (st, fq, tr, self) infile = Inr (st1, fq1, tr1, self1)"
    and rest: "preprocess_loop E outfile t cc ext (st1, fq1, tr1, self1) infiles = Inr (st', fq', tr', self')"
    by (auto split: sum.splits)
  from Cons.prems(2) have nosra: "\<not> endswith infile ''.sra''"
    and nosras: "\<forall>x\<in>set infiles. \<not> endswith x ''.sra''" by simp_all
  from preprocess_step_group [OF step nosra] obtain g where
    g: "fq1 = fq @ [g]" "length g = 1 \<or> length g = 2 \<or> length g = 4" by blast
  from Cons.IH [OF rest nosras] obtain gs where
    gs: "fq' = fq1 @ gs" "length gs = length infiles"
        "\<forall>g\<in>set gs. length g = 1 \<or> length g = 2 \<or> length g = 4" by blast
  show ?case
  proof (intro exI conjI)
    show "fq' = fq @ (g # gs)" using g(1) gs(1) by simp
    show "length (g # gs) = length (infile # infiles)" using gs(2) by simp
    show "\<forall>h\<in>set (g # gs). length h = 1 \<or> length h = 2 \<or> length h = 4"
      using g(2) gs(3) by simp
  qed
qed

lemma unknown_suffix_step:
  "preprocess_step E outfile t cc ext st ''sample.fastq.2.gz'' =
     Inl (NotImplementedError ''unknown file format sample.fastq.2.gz'')"
  by (simp add: preprocess_step_def endswith_def)

lemma unknown_suffix_preprocess:
  "preprocess E self [''sample.fastq.2.gz''] outfile =
     Inl (NotImplementedError ''unknown file format sample.fastq.2.gz'')"
  by (simp add: preprocess_def Let_def unknown_suffix_step)

lemma preprocess_mixed_example:
  "preprocess demo_env Mapper_new [''a.fastq.gz'', ''b.fastq.1.gz''] ''a.bam'' =
     Inr ((''mkdir -p /tmp/ctmpX;'', [[''a.fastq.gz''], [''b.fastq.1.gz'', ''b.fastq.2.gz'']]),
          Mapper_new\<lparr>self_tmpdir_fastq := Some ''/tmp/ctmpX''\<rparr>)"
  by (simp add: preprocess_def preprocess_step_def pp_fastq_def pp_fastq1_def demo_simps)

lemma solid2fastq_incomplete:
  "map_of d ''infile'' = Some a \<Longrightarrow> map_of d ''quality'' = Some b \<Longrightarrow>
   map_of d ''compress_cmd'' = Some c \<Longrightarrow> map_of d ''tmpdir_fastq'' = Some e \<Longrightarrow>
   map_of d ''track'' = Some f \<Longrightarrow> map_of d ''extension'' = Some g \<Longrightarrow>
   pyformat tmpl_solid2fastq d = Inl (ValueError ''incomplete format'')"
  by (simp add: pyformat_def tmpl_solid2fastq_def prepend_def)

text \<open>
  Without \<^verbatim>\<open>preserve_colourspace\<close> the branch for \<^verbatim>\<open>.csfasta.gz\<close> never returns:
  either \<^verbatim>\<open>P.snip\<close> raises or the template of lines 573-576 does, since it ends in
  \<^verbatim>\<open>%(extension)\<close> without a conversion character.
\<close>

lemma pp_csfasta_convert_raises:
  assumes "\<not> self_preserve_colourspace self"
  shows "\<exists>e. pp_csfasta E outfile t cc ext (st, fq, tr, self) infile = Inl e"
proof (cases "snip E infile ''.csfasta.gz''")
  case (Inl e)
  with assms show ?thesis by (simp add: pp_csfasta_def)
next
  case (Inr b)
  with assms show ?thesis
    by (simp add: pp_csfasta_def Let_def pp_locals_def solid2fastq_incomplete)
qed

section \<open>The claims about \<^verbatim>\<open>preprocess\<close>\<close>

text \<open>
  C2, as the code has it.  \<^verbatim>\<open>preprocess\<close> compares no arities.  When it accepts a
  list of input paths none of which is an \<^verbatim>\<open>.sra\<close> archive, it returns one file group
  for each path, in order, and every group has one, two or four files; groups of
  different arities can stand side by side.  (An archive contributes the files that
  \<^verbatim>\<open>Sra.peek\<close> finds in it, however many.)  A mixture is rejected later, by the
  \<^verbatim>\<open>mapper\<close> of the classes that compare the arities.
\<close>

theorem preprocess_group_arities:
  assumes "preprocess E self infiles outfile = Inr ((statement, groups), self')"
      and "\<forall>x\<in>set infiles. \<not> endswith x ''.sra''"
  shows "length groups = length infiles \<and>
         (\<forall>g\<in>set groups. length g = 1 \<or> length g = 2 \<or> length g = 4)"
proof -
  from assms(1) obtain st1 tr1 self1 where
    loop: "preprocess_loop E outfile (getTempDir E)
             (if self_compress self then ''| gzip'' else '''')
             (if self_compress self then ''.gz'' else '''')
             ([''mkdir -p '' @ getTempDir E], [], splitext_root (basename outfile), self) infiles
           = Inr (st1, groups, tr1, self1)"
    by (auto simp: preprocess_def Let_def and_then_def split: if_splits sum.splits prod.splits)
  from preprocess_loop_groups [OF loop assms(2)] show ?thesis by auto
qed

theorem preprocess_group_arities_witness:
  "length [[''a.fastq.gz''], [''b.fastq.1.gz'', ''b.fastq.2.gz'']] =
     length [''a.fastq.gz'', ''b.fastq.1.gz''] \<and>
   list_all (\<lambda>g. length g = 1 \<or> length g = 2 \<or> length g = 4)
     [[''a.fastq.gz''], [''b.fastq.1.gz'', ''b.fastq.2.gz'']]"
proof -
  have h: "\<forall>x\<in>set [''a.fastq.gz'', ''b.fastq.1.gz'']. \<not> endswith x ''.sra''"
    by (simp add: endswith_def)
  from preprocess_group_arities [OF preprocess_mixed_example h]
  show ?thesis unfolding list_all_iff by blast
qed

text \<open>
  The claim as stated fails: the single-end file \<^verbatim>\<open>a.fastq.gz\<close> and the pair that
  starts with \<^verbatim>\<open>b.fastq.1.gz\<close> are accepted together, and the read set returned holds
  a group of one file and a group of two.
\<close>

theorem preprocess_mixed_arity_counterexample:
  "fragment (preprocess demo_env Mapper_new [''a.fastq.gz'', ''b.fastq.1.gz''] ''a.bam'') =
     Inr (''mkdir -p /tmp/ctmpX;'', [[''a.fastq.gz''], [''b.fastq.1.gz'', ''b.fastq.2.gz'']])
   \<and> length [''a.fastq.gz''] \<noteq> length [''b.fastq.1.gz'', ''b.fastq.2.gz'']"
  by (simp add: preprocess_mixed_example fragment_def)

text \<open>
  C3, as the code has it.  The suffix \<^verbatim>\<open>.fastq.2.gz\<close> is none of the suffixes that
  \<^verbatim>\<open>preprocess\<close> knows (a pair is entered by its first file only), so for the input
  list that holds \<^verbatim>\<open>sample.fastq.2.gz\<close> alone \<^verbatim>\<open>preprocess\<close>, and with it \<^verbatim>\<open>build\<close>
  of every class that inherits it, raises
  \<^verbatim>\<open>NotImplementedError("unknown file format sample.fastq.2.gz")\<close>, the specification's
  \<open>UnsupportedFormat\<close>, whatever the file system holds.
\<close>

theorem second_mate_alone_unknown_format:
  "preprocess E self [''sample.fastq.2.gz''] outfile =
     Inl (NotImplementedError ''unknown file format sample.fastq.2.gz'')
   \<and> build ((Mapper_class E)\<lparr>mapper_m := m, postprocess_m := p, cleanup_m := c\<rparr>)
        self [''sample.fastq.2.gz''] outfile =
     Inl (NotImplementedError ''unknown file format sample.fastq.2.gz'')
   \<and> spec_error (NotImplementedError ''unknown file format sample.fastq.2.gz'') =
     UnsupportedFormat"
  by (simp add: build_def Mapper_class_def unknown_suffix_preprocess spec_error_def)

text \<open>
  The claim as stated fails: in the example environment, where no file
  \<^verbatim>\<open>sample.fastq.1.gz\<close> exists, the error raised is not the one for a missing mate.
\<close>

theorem second_mate_alone_counterexample:
  "build (BWA_class demo_env) (BWA_new False False False False)
      [''sample.fastq.2.gz''] ''sample.bam'' =
     Inl (NotImplementedError ''unknown file format sample.fastq.2.gz'')
   \<and> spec_error (NotImplementedError ''unknown file format sample.fastq.2.gz'') \<noteq> MissingMate"
  by (simp add: build_def BWA_class_def Mapper_class_def unknown_suffix_preprocess
        spec_error_def)

text \<open>
  C4, at the failing input.  For the colour-space file \<^verbatim>\<open>sample.csfasta.gz\<close> and a
  mapper that does not preserve colour space, \<^verbatim>\<open>preprocess\<close> returns neither a
  \<^verbatim>\<open>solid2fastq\<close> statement nor a file group: filling the template raises
  \<^verbatim>\<open>ValueError("incomplete format")\<close>.
\<close>

theorem csfasta_conversion_raises:
  "preprocess demo_env Mapper_new [''sample.csfasta.gz''] ''sample.bam'' =
     Inl (ValueError ''incomplete format'')"
  by (simp add: preprocess_def preprocess_step_def pp_csfasta_def pp_locals_def
        solid2fastq_incomplete demo_simps)

subsection \<open>Filling the long templates\<close>

text \<open>
  A template that is filled successfully up to some point can be filled piece by piece:
  the pieces here are the lines of the template.
\<close>

lemma prepend_Inr: "prepend p (Inr s) = Inr (p @ s)"
  by (simp add: prepend_def)

lemma prepend_Nil: "prepend [] r = r"
  by (cases r) (simp_all add: prepend_def)

lemma prepend_prepend: "prepend p (prepend q r) = prepend (p @ q) r"
  by (cases r) (simp_all add: prepend_def)

lemma prepend_eq_Inr: "prepend p r = Inr s \<longleftrightarrow> (\<exists>q. r = Inr q \<and> s = p @ q)"
  by (cases r) (auto simp: prepend_def)

lemma pyformat_go_append_mode:
  "pyformat_go d m a = Inr a' \<Longrightarrow> pyformat_go d m (a @ b) = prepend a' (pyformat_go d Lit b)"
proof (induction d m a arbitrary: a' rule: pyformat_go.induct)
  case (1 d)
  then show ?case by (simp add: prepend_Nil)
next
  case (2 d c cs)
  then show ?case
    by (auto simp: prepend_eq_Inr prepend_prepend split: if_splits)
next
  case (4 d c cs)
  then show ?case
    by (auto simp: prepend_eq_Inr prepend_prepend split: if_splits)
next
  case (6 d k c cs)
  then show ?case by (auto split: if_splits option.splits)
next
  case (8 d v c cs)
  then show ?case
    by (auto simp: prepend_eq_Inr prepend_prepend split: if_splits)
qed simp_all

lemma pyformat_go_append:
  "pyformat_go d Lit a = Inr a' \<Longrightarrow> pyformat_go d Lit (a @ b) = prepend a' (pyformat_go d Lit b)"
  by (rule pyformat_go_append_mode)

lemma counter_format:
  "pyformat tmpl_counter [(''outfile'', outfile), (''x'', x)] = Inr (counter_text x outfile)"
  by (simp add: pyformat_def tmpl_counter_def counter_text_def prepend_def)

lemma bwa_single_format:
  "pyformat tmpl_bwa_single
     ((''infiles'', infiles) #
         [(''outfile'', outfile), (''tmpdir'', tmpdir), (''tmpdir_fastq'', tmpdir_fastq), (''data_options'', data_options), (''index_prefix'', index_prefix), (''track'', track)]) =
   Inr (bwa_single_text index_prefix infiles tmpdir track outfile)"
proof -
  let ?d = "(''infiles'', infiles) #
      [(''outfile'', outfile), (''tmpdir'', tmpdir), (''tmpdir_fastq'', tmpdir_fastq), (''data_options'', data_options), (''index_prefix'', index_prefix), (''track'', track)]"
  have u1: "pyformat_go ?d Lit ''\<newline>'' =
      Inr (''\<newline>'')"
    by (simp add: prepend_def)
  have u2: "pyformat_go ?d Lit ''            bwa aln %%(bwa_aln_options)s -t %%(bwa_threads)i\<newline>'' =
      Inr (''            bwa aln %(bwa_aln_options)s -t %(bwa_threads)i\<newline>'')"
    by (simp add: prepend_def)
  have u3: "pyformat_go ?d Lit ''            %(index_prefix)s %(infiles)s\<newline>'' =
      Inr (''            '' @ index_prefix @ '' '' @ infiles @ ''\<newline>'')"
    by (simp add: prepend_def)
  have u4: "pyformat_go ?d Lit ''            > %(tmpdir)s/%(track)s.sai 2>>%(outfile)s.bwa.log;\<newline>'' =
      Inr (''            > '' @ tmpdir @ ''/'' @ track @ ''.sai 2>>'' @ outfile @
          ''.bwa.log;\<newline>'')"
    by (simp add: prepend_def)
  have u5: "pyformat_go ?d Lit ''            bwa samse %%(bwa_index_dir)s/%%(genome)s\<newline>'' =
      Inr (''            bwa samse %(bwa_index_dir)s/%(genome)s\<newline>'')"
    by (simp add: prepend_def)
  have u6: "pyformat_go ?d Lit ''            %(tmpdir)s/%(track)s.sai %(infiles)s\<newline>'' =
      Inr (''            '' @ tmpdir @ ''/'' @ track @ ''.sai '' @ infiles @ ''\<newline>'')"
    by (simp add: prepend_def)
  have u7: "pyformat_go ?d Lit ''            > %(tmpdir)s/%(track)s.sam 2>>%(outfile)s.bwa.log;\<newline>            '' =
      Inr (''            > '' @ tmpdir @ ''/'' @ track @ ''.sam 2>>'' @ outfile @
          ''.bwa.log;\<newline>            '')"
    by (simp add: prepend_def)
  show ?thesis
    unfolding pyformat_def tmpl_bwa_single_def bwa_single_text_def
    by (simp only: pyformat_go_append [OF u1] pyformat_go_append [OF u2] pyformat_go_append [OF u3] pyformat_go_append [OF u4] pyformat_go_append [OF u5] pyformat_go_append [OF u6] u7 prepend_Inr)
qed

lemma bwa_paired_format:
  "pyformat tmpl_bwa_paired
     ((''track1'', track1) # (''track2'', track2) # (''infiles1'', infiles1) #
         (''infiles2'', infiles2) #
         [(''outfile'', outfile), (''tmpdir'', tmpdir), (''tmpdir_fastq'', tmpdir_fastq), (''data_options'', data_options), (''index_prefix'', index_prefix), (''track'', track)]) =
   Inr (bwa_paired_text index_prefix infiles1 tmpdir track1 outfile infiles2 track2 track)"
proof -
  let ?d = "(''track1'', track1) # (''track2'', track2) # (''infiles1'', infiles1) #
      (''infiles2'', infiles2) #
      [(''outfile'', outfile), (''tmpdir'', tmpdir), (''tmpdir_fastq'', tmpdir_fastq), (''data_options'', data_options), (''index_prefix'', index_prefix), (''track'', track)]"
  have u1: "pyformat_go ?d Lit ''\<newline>'' =
      Inr (''\<newline>'')"
    by (simp add: prepend_def)
  have u2: "pyformat_go ?d Lit ''            bwa aln %%(bwa_aln_options)s -t %%(bwa_threads)i\<newline>'' =
      Inr (''            bwa aln %(bwa_aln_options)s -t %(bwa_threads)i\<newline>'')"
    by (simp add: prepend_def)
  have u3: "pyformat_go ?d Lit ''            %(index_prefix)s %(infiles1)s\<newline>'' =
      Inr (''            '' @ index_prefix @ '' '' @ infiles1 @ ''\<newline>'')"
    by (simp add: prepend_def)
  have u4: "pyformat_go ?d Lit ''            > %(tmpdir)s/%(track1)s.sai 2>>%(outfile)s.bwa.log; checkpoint;\<newline>'' =
      Inr (''            > '' @ tmpdir @ ''/'' @ track1 @ ''.sai 2>>'' @ outfile @
          ''.bwa.log; checkpoint;\<newline>'')"
    by (simp add: prepend_def)
  have u5: "pyformat_go ?d Lit ''            bwa aln %%(bwa_aln_options)s -t %%(bwa_threads)i\<newline>'' =
      Inr (''            bwa aln %(bwa_aln_options)s -t %(bwa_threads)i\<newline>'')"
    by (simp add: prepend_def)
  have u6: "pyformat_go ?d Lit ''            %(index_prefix)s %(infiles2)s\<newline>'' =
      Inr (''            '' @ index_prefix @ '' '' @ infiles2 @ ''\<newline>'')"
    by (simp add: prepend_def)
  have u7: "pyformat_go ?d Lit ''            > %(tmpdir)s/%(track2)s.sai 2>>%(outfile)s.bwa.log; checkpoint;\<newline>'' =
      Inr (''            > '' @ tmpdir @ ''/'' @ track2 @ ''.sai 2>>'' @ outfile @
          ''.bwa.log; checkpoint;\<newline>'')"
    by (simp add: prepend_def)
  have u8: "pyformat_go ?d Lit ''            bwa sampe %%(bwa_sampe_options)s %(index_prefix)s\<newline>'' =
      Inr (''            bwa sampe %(bwa_sampe_options)s '' @ index_prefix @ ''\<newline>'')"
    by (simp add: prepend_def)
  have u9: "pyformat_go ?d Lit ''                      %(tmpdir)s/%(track1)s.sai %(tmpdir)s/%(track2)s.sai\<newline>'' =
      Inr (''                      '' @ tmpdir @ ''/'' @ track1 @ ''.sai '' @ tmpdir @ ''/'' @
          track2 @ ''.sai\<newline>'')"
    by (simp add: prepend_def)
  have u10: "pyformat_go ?d Lit ''                      %(infiles1)s %(infiles2)s\<newline>'' =
      Inr (''                      '' @ infiles1 @ '' '' @ infiles2 @ ''\<newline>'')"
    by (simp add: prepend_def)
  have u11: "pyformat_go ?d Lit ''            > %(tmpdir)s/%(track)s.sam 2>>%(outfile)s.bwa.log;\<newline>            '' =
      Inr (''            > '' @ tmpdir @ ''/'' @ track @ ''.sam 2>>'' @ outfile @
          ''.bwa.log;\<newline>            '')"
    by (simp add: prepend_def)
  show ?thesis
    unfolding pyformat_def tmpl_bwa_paired_def bwa_paired_text_def
    by (simp only: pyformat_go_append [OF u1] pyformat_go_append [OF u2] pyformat_go_append [OF u3] pyformat_go_append [OF u4] pyformat_go_append [OF u5] pyformat_go_append [OF u6] pyformat_go_append [OF u7] pyformat_go_append [OF u8] pyformat_go_append [OF u9] pyformat_go_append [OF u10] u11 prepend_Inr)
qed

lemma bwa_postprocess_format:
  "pyformat tmpl_bwa_postprocess
     ((''unique_cmd'', unique_cmd) # (''strip_cmd'', strip_cmd) #
         (''set_nh_cmd'', set_nh_cmd) #
         [(''outfile'', outfile), (''track'', track), (''outf'', outf), (''tmpdir'', tmpdir)]) =
   Inr (bwa_postprocess_text tmpdir track unique_cmd strip_cmd set_nh_cmd outf outfile)"
proof -
  let ?d = "(''unique_cmd'', unique_cmd) # (''strip_cmd'', strip_cmd) #
      (''set_nh_cmd'', set_nh_cmd) #
      [(''outfile'', outfile), (''track'', track), (''outf'', outf), (''tmpdir'', tmpdir)]"
  have u1: "pyformat_go ?d Lit ''\<newline>'' =
      Inr (''\<newline>'')"
    by (simp add: prepend_def)
  have u2: "pyformat_go ?d Lit ''                samtools view -uS %(tmpdir)s/%(track)s.sam\<newline>'' =
      Inr (''                samtools view -uS '' @ tmpdir @ ''/'' @ track @
          ''.sam\<newline>'')"
    by (simp add: prepend_def)
  have u3: "pyformat_go ?d Lit ''                %(unique_cmd)s\<newline>'' =
      Inr (''                '' @ unique_cmd @ ''\<newline>'')"
    by (simp add: prepend_def)
  have u4: "pyformat_go ?d Lit ''                %(strip_cmd)s\<newline>'' =
      Inr (''                '' @ strip_cmd @ ''\<newline>'')"
    by (simp add: prepend_def)
  have u5: "pyformat_go ?d Lit ''                %(set_nh_cmd)s\<newline>'' =
      Inr (''                '' @ set_nh_cmd @ ''\<newline>'')"
    by (simp add: prepend_def)
  have u6: "pyformat_go ?d Lit ''                | samtools sort - %(outf)s 2>>%(outfile)s.bwa.log;\<newline>'' =
      Inr (''                | samtools sort - '' @ outf @ '' 2>>'' @ outfile @
          ''.bwa.log;\<newline>'')"
    by (simp add: prepend_def)
  have u7: "pyformat_go ?d Lit ''                samtools index %(outfile)s;'' =
      Inr (''                samtools index '' @ outfile @ '';'')"
    by (simp add: prepend_def)
  show ?thesis
    unfolding pyformat_def tmpl_bwa_postprocess_def bwa_postprocess_text_def
    by (simp only: pyformat_go_append [OF u1] pyformat_go_append [OF u2] pyformat_go_append [OF u3] pyformat_go_append [OF u4] pyformat_go_append [OF u5] pyformat_go_append [OF u6] u7 prepend_Inr)
qed

subsection \<open>Fragments that end with the terminator\<close>

lemma isspace_semicolon [simp]: "\<not> isspace CHR '';''"
  by (simp add: isspace_def)

lemma terminated_iff:
  "terminated s \<longleftrightarrow> (\<exists>p w. s = p @ '';'' @ w \<and> (\<forall>c\<in>set w. isspace c))"
proof
  assume t: "terminated s"
  define R where "R = rev (dropWhile isspace (rev s))"
  define w where "w = rev (takeWhile isspace (rev s))"
  have s: "s = R @ w"
  proof -
    have "R @ w = rev (takeWhile isspace (rev s) @ dropWhile isspace (rev s))"
      unfolding R_def w_def by (simp only: rev_append)
    also have "\<dots> = rev (rev s)" by (simp only: takeWhile_dropWhile_id)
    finally show ?thesis by simp
  qed
  have w: "\<forall>c\<in>set w. isspace c"
    by (auto simp: w_def dest: set_takeWhileD)
  from t obtain r where r: "rev (dropWhile isspace R) = CHR '';'' # r"
    by (auto simp: terminated_def endswith_def strip_def R_def prefix_def)
  then have "dropWhile isspace R = rev r @ '';''"
    by (metis rev_rev_ident rev.simps(2))
  moreover have "R = takeWhile isspace R @ dropWhile isspace R" by simp
  ultimately have "R = (takeWhile isspace R @ rev r) @ '';''" by simp
  with s have "s = (takeWhile isspace R @ rev r) @ '';'' @ w" by simp
  with w show "\<exists>p w. s = p @ '';'' @ w \<and> (\<forall>c\<in>set w. isspace c)" by blast
next
  assume "\<exists>p w. s = p @ '';'' @ w \<and> (\<forall>c\<in>set w. isspace c)"
  then obtain p w where s: "s = p @ '';'' @ w" and w: "\<forall>c\<in>set w. isspace c" by blast
  have "dropWhile isspace (rev s) = CHR '';'' # rev p"
    using w by (simp add: s dropWhile_append)
  then have "rev (dropWhile isspace (rev s)) = p @ '';''" by simp
  moreover have "\<exists>q. dropWhile isspace (p @ '';'') = q @ '';''"
    by (cases "\<forall>c\<in>set p. isspace c") (simp_all add: dropWhile_append)
  ultimately show "terminated s"
    by (auto simp: terminated_def endswith_def strip_def)
qed

lemma terminated_appendI: "terminated b \<Longrightarrow> terminated (a @ b)"
proof -
  assume "terminated b"
  then obtain p w where "b = p @ '';'' @ w" and "\<forall>c\<in>set w. isspace c"
    unfolding terminated_iff by blast
  then have "a @ b = (a @ p) @ '';'' @ w \<and> (\<forall>c\<in>set w. isspace c)" by simp
  then show ?thesis unfolding terminated_iff by blast
qed

lemma not_terminated_Nil: "\<not> terminated []"
  by (simp add: terminated_def endswith_def strip_def)

lemma terminated_counter_text: "terminated (counter_text x outfile)"
  unfolding counter_text_def
  by (intro terminated_appendI) (simp add: terminated_def endswith_def strip_def isspace_def)

lemma terminated_bwa_single_text:
  "terminated (bwa_single_text index_prefix infiles tmpdir track outfile)"
  unfolding bwa_single_text_def
  by (intro terminated_appendI) (simp add: terminated_def endswith_def strip_def isspace_def)

lemma terminated_bwa_paired_text:
  "terminated (bwa_paired_text index_prefix infiles1 tmpdir track1 outfile infiles2 track2 track)"
  unfolding bwa_paired_text_def
  by (intro terminated_appendI) (simp add: terminated_def endswith_def strip_def isspace_def)

lemma terminated_bwa_postprocess_text:
  "terminated (bwa_postprocess_text tmpdir track unique_cmd strip_cmd set_nh_cmd outf outfile)"
  unfolding bwa_postprocess_text_def
  by (intro terminated_appendI) (simp add: terminated_def endswith_def strip_def isspace_def)

subsection \<open>Facts about \<^verbatim>\<open>build\<close> and the example jobs\<close>

lemma build_of_phases:
  assumes "preprocess_m S self infiles outfile = Inr ((cmd_preprocess, mapfiles), self1)"
      and "mapper_m S self1 mapfiles outfile = Inr (cmd_mapper, self2)"
      and "postprocess_m S self2 infiles outfile = Inr (cmd_postprocess, self3)"
      and "cleanup_m S self3 outfile = Inr (cmd_clean, self4)"
  shows "build S self infiles outfile =
           (if \<not> terminated cmd_preprocess \<or> \<not> terminated cmd_mapper
               \<or> (cmd_postprocess \<noteq> [] \<and> \<not> terminated cmd_postprocess)
               \<or> (cmd_clean \<noteq> [] \<and> \<not> terminated cmd_clean)
            then Inl (AssertionError [])
            else Inr (cmd_preprocess @ '' checkpoint; '' @ cmd_mapper @ '' checkpoint; '' @
                      cmd_postprocess @ '' checkpoint; '' @ cmd_clean, self4))"
  by (simp add: build_def assms)

lemma preprocess_single_example:
  "preprocess demo_env self [''a.fastq.gz''] outfile =
     Inr ((''mkdir -p /tmp/ctmpX;'', [[''a.fastq.gz'']]),
          self\<lparr>self_tmpdir_fastq := Some ''/tmp/ctmpX''\<rparr>)"
  by (simp add: preprocess_def preprocess_step_def pp_fastq_def demo_env_def endswith_def
        Let_def)

lemma preprocess_mixed_general:
  "preprocess demo_env self [''a.fastq.gz'', ''b.fastq.1.gz''] outfile =
     Inr ((''mkdir -p /tmp/ctmpX;'', [[''a.fastq.gz''], [''b.fastq.1.gz'', ''b.fastq.2.gz'']]),
          self\<lparr>self_tmpdir_fastq := Some ''/tmp/ctmpX''\<rparr>)"
  by (simp add: preprocess_def preprocess_step_def pp_fastq_def pp_fastq1_def demo_env_def
        snip_suffix_def endswith_def Let_def)

lemma Mapper_cleanup_example:
  "self_tmpdir_fastq self = Some t \<Longrightarrow>
   Mapper_cleanup self outfile = Inr (''rm -rf '' @ t @ '';'', self)"
  by (simp add: Mapper_cleanup_def attr_def)

lemma terminated_mkdir: "terminated ''mkdir -p /tmp/ctmpX;''"
  by (simp add: terminated_def endswith_def strip_def isspace_def)

lemma terminated_rm: "terminated ''rm -rf /tmp/ctmpX;''"
  by (simp add: terminated_def endswith_def strip_def isspace_def)

lemma Counter_mapper_single_example:
  "Counter_mapper self [[''a.fastq.gz'']] outfile =
     Inr (counter_text ''a.fastq.gz'' outfile, self)"
  by (simp add: Counter_mapper_def counter_format)

lemma Counter_mapper_mixed_example:
  "Counter_mapper self [[''a.fastq.gz''], [''b.fastq.1.gz'', ''b.fastq.2.gz'']] outfile =
     Inr (counter_text ''a.fastq.gz'' outfile @ '' '' @
          counter_text ''b.fastq.1.gz b.fastq.2.gz'' outfile, self)"
  by (simp add: Counter_mapper_def counter_format)

lemma Counter_build_single_example:
  "build (Counter_class demo_env) Counter_new [''a.fastq.gz''] ''a.nreads'' =
     Inr (''mkdir -p /tmp/ctmpX;'' @ '' checkpoint; '' @
          counter_text ''a.fastq.gz'' ''a.nreads'' @ '' checkpoint; '' @
          [] @ '' checkpoint; '' @ ''rm -rf /tmp/ctmpX;'',
          Counter_new\<lparr>self_tmpdir_fastq := Some ''/tmp/ctmpX''\<rparr>)"
proof -
  let ?self1 = "Counter_new\<lparr>self_tmpdir_fastq := Some ''/tmp/ctmpX''\<rparr>"
  have p1: "preprocess_m (Counter_class demo_env) Counter_new [''a.fastq.gz''] ''a.nreads'' =
              Inr ((''mkdir -p /tmp/ctmpX;'', [[''a.fastq.gz'']]), ?self1)"
    by (simp add: Counter_class_def Mapper_class_def preprocess_single_example)
  have p2: "mapper_m (Counter_class demo_env) ?self1 [[''a.fastq.gz'']] ''a.nreads'' =
              Inr (counter_text ''a.fastq.gz'' ''a.nreads'', ?self1)"
    by (simp add: Counter_class_def Mapper_class_def Counter_mapper_single_example)
  have p3: "postprocess_m (Counter_class demo_env) ?self1 [''a.fastq.gz''] ''a.nreads'' =
              Inr ([], ?self1)"
    by (simp add: Counter_class_def Mapper_class_def Mapper_postprocess_def)
  have p4: "cleanup_m (Counter_class demo_env) ?self1 ''a.nreads'' =
              Inr (''rm -rf /tmp/ctmpX;'', ?self1)"
    by (simp add: Counter_class_def Mapper_class_def Mapper_cleanup_def attr_def)
  show ?thesis
    unfolding build_of_phases [OF p1 p2 p3 p4]
    using terminated_mkdir terminated_rm terminated_counter_text by simp
qed

lemma Counter_build_mixed_example:
  "build (Counter_class demo_env) Counter_new [''a.fastq.gz'', ''b.fastq.1.gz''] ''a.nreads'' =
     Inr (''mkdir -p /tmp/ctmpX;'' @ '' checkpoint; '' @
          (counter_text ''a.fastq.gz'' ''a.nreads'' @ '' '' @
           counter_text ''b.fastq.1.gz b.fastq.2.gz'' ''a.nreads'') @ '' checkpoint; '' @
          [] @ '' checkpoint; '' @ ''rm -rf /tmp/ctmpX;'',
          Counter_new\<lparr>self_tmpdir_fastq := Some ''/tmp/ctmpX''\<rparr>)"
proof -
  let ?self1 = "Counter_new\<lparr>self_tmpdir_fastq := Some ''/tmp/ctmpX''\<rparr>"
  let ?groups = "[[''a.fastq.gz''], [''b.fastq.1.gz'', ''b.fastq.2.gz'']]"
  let ?M = "counter_text ''a.fastq.gz'' ''a.nreads'' @ '' '' @
            counter_text ''b.fastq.1.gz b.fastq.2.gz'' ''a.nreads''"
  have p1: "preprocess_m (Counter_class demo_env) Counter_new
              [''a.fastq.gz'', ''b.fastq.1.gz''] ''a.nreads'' =
              Inr ((''mkdir -p /tmp/ctmpX;'', ?groups), ?self1)"
    by (simp add: Counter_class_def Mapper_class_def preprocess_mixed_general)
  have p2: "mapper_m (Counter_class demo_env) ?self1 ?groups ''a.nreads'' = Inr (?M, ?self1)"
    by (simp add: Counter_class_def Mapper_class_def Counter_mapper_mixed_example)
  have p3: "postprocess_m (Counter_class demo_env) ?self1
              [''a.fastq.gz'', ''b.fastq.1.gz''] ''a.nreads'' = Inr ([], ?self1)"
    by (simp add: Counter_class_def Mapper_class_def Mapper_postprocess_def)
  have p4: "cleanup_m (Counter_class demo_env) ?self1 ''a.nreads'' =
              Inr (''rm -rf /tmp/ctmpX;'', ?self1)"
    by (simp add: Counter_class_def Mapper_class_def Mapper_cleanup_def attr_def)
  have tM: "terminated ?M"
    by (intro terminated_appendI) (rule terminated_counter_text)
  show ?thesis
    unfolding build_of_phases [OF p1 p2 p3 p4]
    using terminated_mkdir terminated_rm tM by simp
qed

lemma Mapper_build_example:
  "build (Mapper_class demo_env) Mapper_new [''a.fastq.gz''] ''a.bam'' =
     Inl (AssertionError [])"
  by (simp add: build_def Mapper_class_def preprocess_single_example Mapper_mapper_def
        Mapper_postprocess_def Mapper_cleanup_def attr_def not_terminated_Nil)

subsection \<open>What \<^verbatim>\<open>preprocess\<close> leaves behind\<close>

lemma pp_sra_executable:
  "pp_sra E outfile t cc ext (st, fq, tr, self) infile = Inr (st', fq', tr', self') \<Longrightarrow>
   self_executable self' = self_executable self"
  by (auto simp: pp_sra_def and_then_def Let_def
           split: sum.splits if_splits prod.splits list.splits)

lemma preprocess_step_executable:
  assumes "preprocess_step E outfile t cc ext (st, fq, tr, self) infile = Inr (st', fq', tr', self')"
  shows "self_executable self' = self_executable self"
  using assms
  by (auto simp: preprocess_step_def pp_export_def pp_fa_def pp_fastq_def pp_csfasta_def
                 pp_csfasta_F3_def pp_fastq1_def and_then_def Let_def
           split: if_splits sum.splits prod.splits dest: pp_sra_executable)

lemma preprocess_loop_executable:
  "preprocess_loop E outfile t cc ext (st, fq, tr, self) infiles = Inr (st', fq', tr', self') \<Longrightarrow>
   self_executable self' = self_executable self"
proof (induction infiles arbitrary: st fq tr self)
  case Nil
  then show ?case by simp
next
  case (Cons infile infiles)
  from Cons.prems obtain st1 fq1 tr1 self1 where
    step: "preprocess_step E outfile t cc ext (st, fq, tr, self) infile = Inr (st1, fq1, tr1, self1)"
    and rest: "preprocess_loop E outfile t cc ext (st1, fq1, tr1, self1) infiles = Inr (st', fq', tr', self')"
    by (auto split: sum.splits)
  from Cons.IH [OF rest] preprocess_step_executable [OF step] show ?case by simp
qed

lemma terminated_semicolon: "terminated (s @ '';'')"
proof -
  have "s @ '';'' = s @ '';'' @ [] \<and> (\<forall>c\<in>set []. isspace c)" by simp
  then show ?thesis unfolding terminated_iff by blast
qed

lemma preprocess_leaves:
  assumes "preprocess E self infiles outfile = Inr ((cmd_preprocess, mapfiles), self1)"
  shows "terminated cmd_preprocess"
    and "self_tmpdir_fastq self1 = Some (getTempDir E)"
    and "self_executable self1 = self_executable self"
proof -
  from assms obtain st1 tr1 self0 where
    loop: "preprocess_loop E outfile (getTempDir E)
             (if self_compress self then ''| gzip'' else '''')
             (if self_compress self then ''.gz'' else '''')
             ([''mkdir -p '' @ getTempDir E], [], splitext_root (basename outfile), self) infiles
           = Inr (st1, mapfiles, tr1, self0)"
    and cmd: "cmd_preprocess = join ''; '' st1 @ '';''"
    and self1: "self1 = self0\<lparr>self_tmpdir_fastq := Some (getTempDir E)\<rparr>"
    by (auto simp: preprocess_def Let_def and_then_def split: if_splits sum.splits prod.splits)
  show "terminated cmd_preprocess" unfolding cmd by (rule terminated_semicolon)
  show "self_tmpdir_fastq self1 = Some (getTempDir E)" unfolding self1 by simp
  show "self_executable self1 = self_executable self"
    unfolding self1 using preprocess_loop_executable [OF loop] by simp
qed

subsection \<open>The \<^verbatim>\<open>mapper\<close> of \<^verbatim>\<open>Counter\<close> accepts every list of groups\<close>

lemma Counter_groups_eq:
  "Counter_groups outfile statement infiles =
     Inr (statement @ map (\<lambda>f. counter_text (join '' '' f) outfile) infiles)"
  by (induction infiles arbitrary: statement) (simp_all add: counter_format)

lemma Counter_mapper_eq:
  "Counter_mapper self infiles outfile =
     Inr (join '' '' (map (\<lambda>f. counter_text (join '' '' f) outfile) infiles), self)"
  by (simp add: Counter_mapper_def Counter_groups_eq)

lemma terminated_join_last:
  "xs \<noteq> [] \<Longrightarrow> terminated (last xs) \<Longrightarrow> terminated (join sep xs)"
proof (induction sep xs rule: join.induct)
  case (1 sep)
  then show ?case by simp
next
  case (2 sep x)
  then show ?case by simp
next
  case (3 sep x y ys)
  then have "terminated (join sep (y # ys))" by simp
  then have "terminated (x @ sep @ join sep (y # ys))"
    by (intro terminated_appendI)
  then show ?case by simp
qed

lemma terminated_Counter_fragment:
  assumes "infiles \<noteq> []"
  shows "terminated (join '' '' (map (\<lambda>f. counter_text (join '' '' f) outfile) infiles))"
proof (rule terminated_join_last)
  show "map (\<lambda>f. counter_text (join '' '' f) outfile) infiles \<noteq> []" using assms by simp
  show "terminated (last (map (\<lambda>f. counter_text (join '' '' f) outfile) infiles))"
    using assms by (simp add: last_map terminated_counter_text)
qed

section \<open>The claims about \<^verbatim>\<open>build\<close>\<close>

text \<open>
  C1, as the code has it.  For every class and every input on which the four phases
  and \<^verbatim>\<open>build\<close> succeed, the statement returned is the four fragments in the order
  preprocess, mapper, postprocess, cleanup, joined by the barrier
  \<^verbatim>\<open>" checkpoint; "\<close>.  All four are joined, empty or not: an empty fragment keeps its
  place between two barriers.
\<close>

theorem build_joins_all_four:
  assumes "preprocess_m S self infiles outfile = Inr ((cmd_preprocess, mapfiles), self1)"
      and "mapper_m S self1 mapfiles outfile = Inr (cmd_mapper, self2)"
      and "postprocess_m S self2 infiles outfile = Inr (cmd_postprocess, self3)"
      and "cleanup_m S self3 outfile = Inr (cmd_clean, self4)"
      and "build S self infiles outfile = Inr (statement, self')"
  shows "statement = cmd_preprocess @ '' checkpoint; '' @ cmd_mapper @ '' checkpoint; '' @
                     cmd_postprocess @ '' checkpoint; '' @ cmd_clean"
  using assms(5) unfolding build_of_phases [OF assms(1-4)]
  by (simp split: if_splits)

theorem build_joins_all_four_witness:
  "fragment (build (Counter_class demo_env) Counter_new [''a.fastq.gz''] ''a.nreads'') =
     Inr (''mkdir -p /tmp/ctmpX;'' @ '' checkpoint; '' @
          counter_text ''a.fastq.gz'' ''a.nreads'' @ '' checkpoint; '' @
          [] @ '' checkpoint; '' @ ''rm -rf /tmp/ctmpX;'')"
proof -
  let ?self1 = "Counter_new\<lparr>self_tmpdir_fastq := Some ''/tmp/ctmpX''\<rparr>"
  have p1: "preprocess_m (Counter_class demo_env) Counter_new [''a.fastq.gz''] ''a.nreads'' =
              Inr ((''mkdir -p /tmp/ctmpX;'', [[''a.fastq.gz'']]), ?self1)"
    by (simp add: Counter_class_def Mapper_class_def preprocess_single_example)
  have p2: "mapper_m (Counter_class demo_env) ?self1 [[''a.fastq.gz'']] ''a.nreads'' =
              Inr (counter_text ''a.fastq.gz'' ''a.nreads'', ?self1)"
    by (simp add: Counter_class_def Mapper_class_def Counter_mapper_single_example)
  have p3: "postprocess_m (Counter_class demo_env) ?self1 [''a.fastq.gz''] ''a.nreads'' =
              Inr ([], ?self1)"
    by (simp add: Counter_class_def Mapper_class_def Mapper_postprocess_def)
  have p4: "cleanup_m (Counter_class demo_env) ?self1 ''a.nreads'' =
              Inr (''rm -rf /tmp/ctmpX;'', ?self1)"
    by (simp add: Counter_class_def Mapper_class_def Mapper_cleanup_def attr_def)
  obtain statement self' where
    b: "build (Counter_class demo_env) Counter_new [''a.fastq.gz''] ''a.nreads'' =
          Inr (statement, self')"
    using Counter_build_single_example by blast
  from build_joins_all_four [OF p1 p2 p3 p4 b] b show ?thesis
    by (simp add: fragment_def)
qed

text \<open>
  The claim as stated fails.  For the \<^verbatim>\<open>Counter\<close> job on \<^verbatim>\<open>a.fastq.gz\<close> the
  postprocess fragment is empty, and the plan still holds a barrier for it: it differs
  from the plan in which the empty fragments are dropped before joining.
\<close>

theorem empty_fragment_kept_counterexample:
  "fragment (Mapper_postprocess (Counter_new\<lparr>self_tmpdir_fastq := Some ''/tmp/ctmpX''\<rparr>)
               [''a.fastq.gz''] ''a.nreads'') = Inr []
   \<and> fragment (build (Counter_class demo_env) Counter_new [''a.fastq.gz''] ''a.nreads'') =
       Inr (''mkdir -p /tmp/ctmpX;'' @ '' checkpoint; '' @
            counter_text ''a.fastq.gz'' ''a.nreads'' @ '' checkpoint; '' @
            [] @ '' checkpoint; '' @ ''rm -rf /tmp/ctmpX;'')
   \<and> ''mkdir -p /tmp/ctmpX;'' @ '' checkpoint; '' @
       counter_text ''a.fastq.gz'' ''a.nreads'' @ '' checkpoint; '' @
       [] @ '' checkpoint; '' @ ''rm -rf /tmp/ctmpX;''
     \<noteq> spec_plan [''mkdir -p /tmp/ctmpX;'', counter_text ''a.fastq.gz'' ''a.nreads'', [],
                    ''rm -rf /tmp/ctmpX;'']"
proof -
  have ne: "counter_text ''a.fastq.gz'' ''a.nreads'' \<noteq> []"
    using terminated_counter_text [of "''a.fastq.gz''" "''a.nreads''"] not_terminated_Nil
    by auto
  show ?thesis
    using ne
    by (simp add: fragment_def Mapper_postprocess_def Counter_build_single_example
          spec_plan_def)
qed

text \<open>
  C5, as the code has it.  When the four phases return, \<^verbatim>\<open>build\<close> fails, and then with
  an \<^verbatim>\<open>AssertionError\<close>, exactly when the preprocess or the mapper fragment, stripped of
  surrounding white space, does not end with \<^verbatim>\<open>;\<close>, or the postprocess or the cleanup
  fragment is not empty and, stripped, does not end with \<^verbatim>\<open>;\<close>.  The empty string
  does not end with \<^verbatim>\<open>;\<close>: an empty mapper fragment makes \<^verbatim>\<open>build\<close> fail, an empty
  postprocess or cleanup fragment is accepted.  (By \<open>terminated_iff\<close> a fragment passes
  the check when white space only follows its last \<^verbatim>\<open>;\<close>.)
\<close>

theorem build_fails_iff:
  assumes "preprocess_m S self infiles outfile = Inr ((cmd_preprocess, mapfiles), self1)"
      and "mapper_m S self1 mapfiles outfile = Inr (cmd_mapper, self2)"
      and "postprocess_m S self2 infiles outfile = Inr (cmd_postprocess, self3)"
      and "cleanup_m S self3 outfile = Inr (cmd_clean, self4)"
  shows "((\<exists>e. build S self infiles outfile = Inl e) \<longleftrightarrow>
            (\<not> terminated cmd_preprocess \<or> \<not> terminated cmd_mapper
             \<or> (cmd_postprocess \<noteq> [] \<and> \<not> terminated cmd_postprocess)
             \<or> (cmd_clean \<noteq> [] \<and> \<not> terminated cmd_clean)))
         \<and> ((\<exists>e. build S self infiles outfile = Inl e) \<longrightarrow>
              build S self infiles outfile = Inl (AssertionError [])
              \<and> spec_error (AssertionError []) = MalformedFragment)
         \<and> \<not> terminated []"
  unfolding build_of_phases [OF assms]
  by (simp add: not_terminated_Nil spec_error_def)

theorem build_fails_iff_witness:
  "build (Mapper_class demo_env) Mapper_new [''a.fastq.gz''] ''a.bam'' =
     Inl (AssertionError [])"
proof -
  let ?self1 = "Mapper_new\<lparr>self_tmpdir_fastq := Some ''/tmp/ctmpX''\<rparr>"
  have p1: "preprocess_m (Mapper_class demo_env) Mapper_new [''a.fastq.gz''] ''a.bam'' =
              Inr ((''mkdir -p /tmp/ctmpX;'', [[''a.fastq.gz'']]), ?self1)"
    by (simp add: Mapper_class_def preprocess_single_example)
  have p2: "mapper_m (Mapper_class demo_env) ?self1 [[''a.fastq.gz'']] ''a.bam'' =
              Inr ([], ?self1)"
    by (simp add: Mapper_class_def Mapper_mapper_def)
  have p3: "postprocess_m (Mapper_class demo_env) ?self1 [''a.fastq.gz''] ''a.bam'' =
              Inr ([], ?self1)"
    by (simp add: Mapper_class_def Mapper_postprocess_def)
  have p4: "cleanup_m (Mapper_class demo_env) ?self1 ''a.bam'' =
              Inr (''rm -rf /tmp/ctmpX;'', ?self1)"
    by (simp add: Mapper_class_def Mapper_cleanup_def attr_def)
  from build_fails_iff [OF p1 p2 p3 p4] show ?thesis by blast
qed

text \<open>
  The claim as stated fails.  For the base class \<^verbatim>\<open>Mapper\<close> on \<^verbatim>\<open>a.fastq.gz\<close> the
  fragments are \<^verbatim>\<open>mkdir -p /tmp/ctmpX;\<close>, the empty string, the empty string and
  \<^verbatim>\<open>rm -rf /tmp/ctmpX;\<close>: none of them is non-empty without the terminator, and
  \<^verbatim>\<open>build\<close> fails on the empty mapper fragment.
\<close>

theorem empty_mapper_fragment_counterexample:
  "fragment (Mapper_mapper (Mapper_new\<lparr>self_tmpdir_fastq := Some ''/tmp/ctmpX''\<rparr>)
               [[''a.fastq.gz'']] ''a.bam'') = Inr []
   \<and> build (Mapper_class demo_env) Mapper_new [''a.fastq.gz''] ''a.bam'' =
       Inl (AssertionError [])
   \<and> \<not> spec_malformed [''mkdir -p /tmp/ctmpX;'', [], [], ''rm -rf /tmp/ctmpX;'']"
  by (simp add: fragment_def Mapper_mapper_def Mapper_build_example spec_malformed_def
        endswith_def)

text \<open>
  C8, as the code has it.  The arities are compared by the \<^verbatim>\<open>mapper\<close> of a class, not
  by \<^verbatim>\<open>build\<close> or \<^verbatim>\<open>preprocess\<close>.  For \<^verbatim>\<open>BWA\<close>, \<^verbatim>\<open>Sailfish\<close> and \<^verbatim>\<open>Tophat\<close>,
  whose \<^verbatim>\<open>mapper\<close> begins with the comparison: when \<^verbatim>\<open>preprocess\<close> returns file groups
  two of which differ in arity, \<^verbatim>\<open>build\<close> raises
  \<^verbatim>\<open>ValueError("mixing single and paired-ended data not possible.")\<close>, the
  specification's \<open>ArityMismatch\<close>, and returns no statement (for \<^verbatim>\<open>Tophat\<close> on an
  object that has its executable, as every \<^verbatim>\<open>Tophat\<close> object has).  For \<^verbatim>\<open>Counter\<close>,
  whose \<^verbatim>\<open>mapper\<close> compares no arities, \<^verbatim>\<open>build\<close> returns a plan for the same job.
\<close>

theorem build_rejects_mixed_arities:
  assumes "preprocess E self infiles outfile = Inr ((cmd_preprocess, mapfiles), self1)"
      and "g \<in> set mapfiles" and "h \<in> set mapfiles" and "length g \<noteq> length h"
  shows "build (BWA_class E) self infiles outfile =
           Inl (ValueError ''mixing single and paired-ended data not possible.'')
         \<and> build (Sailfish_class E) self infiles outfile =
           Inl (ValueError ''mixing single and paired-ended data not possible.'')
         \<and> spec_error (ValueError ''mixing single and paired-ended data not possible.'') =
           ArityMismatch
         \<and> (self_executable self \<noteq> None \<longrightarrow>
              build (Tophat_class E) self infiles outfile =
                Inl (ValueError ''mixing single and paired-ended data not possible.''))
         \<and> build (Counter_class E) self infiles outfile =
             Inr (cmd_preprocess @ '' checkpoint; '' @
                  join '' '' (map (\<lambda>f. counter_text (join '' '' f) outfile) mapfiles) @
                  '' checkpoint; '' @ [] @ '' checkpoint; '' @
                  ''rm -rf '' @ getTempDir E @ '';'', self1)"
proof -
  let ?ns = "map length mapfiles"
  let ?mix = "ValueError ''mixing single and paired-ended data not possible.''"
  have ne: "?ns \<noteq> []" using assms(2) by auto
  have mx: "py_max ?ns = Inr (Max (set ?ns))" using ne by (rule py_max_Max)
  have mn: "py_min ?ns = Inr (Min (set ?ns))" using ne by (rule py_min_Min)
  have "length g \<in> set ?ns" and "length h \<in> set ?ns" using assms(2,3) by simp_all
  then have diff: "Max (set ?ns) \<noteq> Min (set ?ns)"
    using assms(4) by (rule mixed_Max_neq_Min)
  have bwa: "BWA_mapper E self1 mapfiles outfile = Inl ?mix"
    using diff by (simp add: BWA_mapper_def Let_def mx mn del: set_map)
  have sailfish: "Sailfish_mapper self1 mapfiles outfile = Inl ?mix"
    using diff by (simp add: Sailfish_mapper_def Let_def sailfish_quant mx mn del: set_map)
  have tophat: "Tophat_mapper self1 mapfiles outfile = Inl ?mix"
    if "self_executable self \<noteq> None"
  proof -
    from that preprocess_leaves(3) [OF assms(1)] obtain ex where
      "self_executable self1 = Some ex" by auto
    then show ?thesis
      using diff by (simp add: Tophat_mapper_def Let_def attr_def mx mn del: set_map)
  qed
  have b1: "build (BWA_class E) self infiles outfile = Inl ?mix"
    by (simp add: build_def BWA_class_def Mapper_class_def assms(1) bwa)
  have b2: "build (Sailfish_class E) self infiles outfile = Inl ?mix"
    by (simp add: build_def Sailfish_class_def Mapper_class_def assms(1) sailfish)
  have b3: "self_executable self \<noteq> None \<longrightarrow>
              build (Tophat_class E) self infiles outfile = Inl ?mix"
    by (simp add: build_def Tophat_class_def Mapper_class_def assms(1) tophat)
  have k: "spec_error ?mix = ArityMismatch" by (simp add: spec_error_def)
  have p1: "preprocess_m (Counter_class E) self infiles outfile =
              Inr ((cmd_preprocess, mapfiles), self1)"
    by (simp add: Counter_class_def Mapper_class_def assms(1))
  have p2: "mapper_m (Counter_class E) self1 mapfiles outfile =
              Inr (join '' '' (map (\<lambda>f. counter_text (join '' '' f) outfile) mapfiles), self1)"
    by (simp add: Counter_class_def Mapper_class_def Counter_mapper_eq)
  have p3: "postprocess_m (Counter_class E) self1 infiles outfile = Inr ([], self1)"
    by (simp add: Counter_class_def Mapper_class_def Mapper_postprocess_def)
  have p4: "cleanup_m (Counter_class E) self1 outfile =
              Inr (''rm -rf '' @ getTempDir E @ '';'', self1)"
    using preprocess_leaves(2) [OF assms(1)]
    by (simp add: Counter_class_def Mapper_class_def Mapper_cleanup_def attr_def)
  have t1: "terminated cmd_preprocess" using assms(1) by (rule preprocess_leaves(1))
  have t2: "terminated (join '' '' (map (\<lambda>f. counter_text (join '' '' f) outfile) mapfiles))"
    using assms(2) by (intro terminated_Counter_fragment) auto
  have t4: "terminated (''rm -rf '' @ getTempDir E @ '';'')"
    using terminated_semicolon [of "''rm -rf '' @ getTempDir E"] by simp
  have b4: "build (Counter_class E) self infiles outfile =
              Inr (cmd_preprocess @ '' checkpoint; '' @
                   join '' '' (map (\<lambda>f. counter_text (join '' '' f) outfile) mapfiles) @
                   '' checkpoint; '' @ [] @ '' checkpoint; '' @
                   ''rm -rf '' @ getTempDir E @ '';'', self1)"
    unfolding build_of_phases [OF p1 p2 p3 p4] using t1 t2 t4 by simp
  from b1 b2 k b3 b4 show ?thesis by (intro conjI)
qed

theorem build_rejects_mixed_arities_witness:
  "build (BWA_class demo_env) Mapper_new [''a.fastq.gz'', ''b.fastq.1.gz''] ''a.bam'' =
     Inl (ValueError ''mixing single and paired-ended data not possible.'')
   \<and> build (Tophat_class demo_env) (Tophat_new None False False)
         [''a.fastq.gz'', ''b.fastq.1.gz''] ''a.bam'' =
       Inl (ValueError ''mixing single and paired-ended data not possible.'')"
proof -
  have g: "[''a.fastq.gz''] \<in> set [[''a.fastq.gz''], [''b.fastq.1.gz'', ''b.fastq.2.gz'']]"
    by simp
  have h: "[''b.fastq.1.gz'', ''b.fastq.2.gz'']
             \<in> set [[''a.fastq.gz''], [''b.fastq.1.gz'', ''b.fastq.2.gz'']]"
    by simp
  have d: "length [''a.fastq.gz''] \<noteq> length [''b.fastq.1.gz'', ''b.fastq.2.gz'']" by simp
  have ex: "self_executable (Tophat_new None False False) \<noteq> None"
    by (simp add: Tophat_new_def Mapper_new_def)
  from build_rejects_mixed_arities [OF preprocess_mixed_general g h d, of Mapper_new "''a.bam''"]
  have bwa: "build (BWA_class demo_env) Mapper_new [''a.fastq.gz'', ''b.fastq.1.gz''] ''a.bam'' =
               Inl (ValueError ''mixing single and paired-ended data not possible.'')"
    by blast
  from build_rejects_mixed_arities
         [OF preprocess_mixed_general g h d, of "Tophat_new None False False" "''a.bam''"] ex
  have tophat: "build (Tophat_class demo_env) (Tophat_new None False False)
                  [''a.fastq.gz'', ''b.fastq.1.gz''] ''a.bam'' =
                Inl (ValueError ''mixing single and paired-ended data not possible.'')"
    by blast
  from bwa tophat show ?thesis by simp
qed

text \<open>
  The claim as stated fails.  The \<^verbatim>\<open>mapper\<close> of \<^verbatim>\<open>Counter\<close> compares no arities: for
  the same mixture of a single-end file and a pair, \<^verbatim>\<open>build\<close> returns a plan.
\<close>

theorem Counter_accepts_mixed_counterexample:
  "fragment (preprocess demo_env Counter_new [''a.fastq.gz'', ''b.fastq.1.gz''] ''a.nreads'') =
     Inr (''mkdir -p /tmp/ctmpX;'', [[''a.fastq.gz''], [''b.fastq.1.gz'', ''b.fastq.2.gz'']])
   \<and> fragment (build (Counter_class demo_env) Counter_new
                  [''a.fastq.gz'', ''b.fastq.1.gz''] ''a.nreads'') =
       Inr (''mkdir -p /tmp/ctmpX;'' @ '' checkpoint; '' @
            (counter_text ''a.fastq.gz'' ''a.nreads'' @ '' '' @
             counter_text ''b.fastq.1.gz b.fastq.2.gz'' ''a.nreads'') @ '' checkpoint; '' @
            [] @ '' checkpoint; '' @ ''rm -rf /tmp/ctmpX;'')"
  by (simp add: fragment_def preprocess_mixed_general Counter_build_mixed_example)

section \<open>The claims about \<^verbatim>\<open>BWA\<close>\<close>

lemma BWA_mapper_single:
  assumes "infiles \<noteq> []" and "\<forall>g\<in>set infiles. length g = 1"
      and "self_tmpdir_fastq self = Some t"
      and "snip E (basename outfile) ''.bam'' = Inr track"
  shows "BWA_mapper E self infiles outfile =
           Inr (''mkdir -p '' @ t @ ''bwa; '' @
                bwa_single_text
                  (if self_datatype self = ''solid''
                   then ''%(bwa_index_dir)s/%(genome)s_cs''
                   else ''%(bwa_index_dir)s/%(genome)s'')
                  (join '','' (map (\<lambda>x. quoteFile self (x ! 0)) infiles))
                  (t @ ''bwa'') track outfile,
                self\<lparr>self_tmpdir := Some (t @ ''bwa'')\<rparr>)"
proof -
  have mx: "py_max (map length infiles) = Inr 1" using assms(1,2) by (rule py_max_uniform)
  have mn: "py_min (map length infiles) = Inr 1" using assms(1,2) by (rule py_min_uniform)
  show ?thesis
    by (simp add: BWA_mapper_def Let_def attr_def mx mn assms(3,4) bwa_single_format
          split del: if_split)
qed

lemma BWA_mapper_paired:
  assumes "infiles \<noteq> []" and "\<forall>g\<in>set infiles. length g = 2"
      and "self_tmpdir_fastq self = Some t"
      and "snip E (basename outfile) ''.bam'' = Inr track"
  shows "BWA_mapper E self infiles outfile =
           Inr (''mkdir -p '' @ t @ ''bwa; '' @
                bwa_paired_text
                  (if self_datatype self = ''solid''
                   then ''%(bwa_index_dir)s/%(genome)s_cs''
                   else ''%(bwa_index_dir)s/%(genome)s'')
                  (join '','' (map (\<lambda>x. quoteFile self (x ! 0)) infiles))
                  (t @ ''bwa'') (track @ ''.1'') outfile
                  (join '','' (map (\<lambda>x. quoteFile self (x ! 1)) infiles))
                  (track @ ''.2'') track,
                self\<lparr>self_tmpdir := Some (t @ ''bwa'')\<rparr>)"
proof -
  have mx: "py_max (map length infiles) = Inr 2" using assms(1,2) by (rule py_max_uniform)
  have mn: "py_min (map length infiles) = Inr 2" using assms(1,2) by (rule py_min_uniform)
  show ?thesis
    by (simp add: BWA_mapper_def Let_def attr_def mx mn assms(3,4) bwa_paired_format
          split del: if_split)
qed

lemma BWA_mapper_other:
  assumes "infiles \<noteq> []" and "\<forall>g\<in>set infiles. length g = n"
      and "self_tmpdir_fastq self = Some t"
      and "snip E (basename outfile) ''.bam'' = Inr track"
      and "n \<noteq> 1" and "n \<noteq> 2"
  shows "BWA_mapper E self infiles outfile =
           Inl (ValueError (''unexpected number read files to map: '' @ decimal n @ '' ''))"
proof -
  have mx: "py_max (map length infiles) = Inr n" using assms(1,2) by (rule py_max_uniform)
  have mn: "py_min (map length infiles) = Inr n" using assms(1,2) by (rule py_min_uniform)
  show ?thesis
    using assms(5,6) by (simp add: BWA_mapper_def Let_def attr_def mx mn assms(3,4))
qed

text \<open>
  C9.  Let every group have \<open>n\<close> files, let \<open>t\<close> be the directory that \<^verbatim>\<open>preprocess\<close>
  recorded and let \<^verbatim>\<open>P.snip\<close> find the track name in the output file.  For \<open>n = 2\<close>
  the \<^verbatim>\<open>mapper\<close> of \<^verbatim>\<open>BWA\<close> returns the paired fragment \<open>bwa_paired_text\<close>: \<^verbatim>\<open>bwa aln\<close>
  on the first mates of all groups into \<^verbatim>\<open>track.1.sai\<close>, then \<^verbatim>\<open>bwa aln\<close> on the
  second mates into \<^verbatim>\<open>track.2.sai\<close>, then \<^verbatim>\<open>bwa sampe\<close> on both results and both lists
  of files into the one file \<^verbatim>\<open>track.sam\<close>.  For \<open>n = 1\<close> it returns the single-end
  fragment, and for every other \<open>n\<close> it raises \<^verbatim>\<open>ValueError\<close>, the specification's
  \<open>UnsupportedArity\<close>.
\<close>

theorem BWA_mapper_by_arity:
  assumes "infiles \<noteq> []" and "\<forall>g\<in>set infiles. length g = n"
      and "self_tmpdir_fastq self = Some t"
      and "snip E (basename outfile) ''.bam'' = Inr track"
  shows "(n = 2 \<longrightarrow>
            BWA_mapper E self infiles outfile =
              Inr (''mkdir -p '' @ t @ ''bwa; '' @
                   bwa_paired_text
                     (if self_datatype self = ''solid''
                      then ''%(bwa_index_dir)s/%(genome)s_cs''
                      else ''%(bwa_index_dir)s/%(genome)s'')
                     (join '','' (map (\<lambda>x. quoteFile self (x ! 0)) infiles))
                     (t @ ''bwa'') (track @ ''.1'') outfile
                     (join '','' (map (\<lambda>x. quoteFile self (x ! 1)) infiles))
                     (track @ ''.2'') track,
                   self\<lparr>self_tmpdir := Some (t @ ''bwa'')\<rparr>))
       \<and> (n = 1 \<longrightarrow>
            BWA_mapper E self infiles outfile =
              Inr (''mkdir -p '' @ t @ ''bwa; '' @
                   bwa_single_text
                     (if self_datatype self = ''solid''
                      then ''%(bwa_index_dir)s/%(genome)s_cs''
                      else ''%(bwa_index_dir)s/%(genome)s'')
                     (join '','' (map (\<lambda>x. quoteFile self (x ! 0)) infiles))
                     (t @ ''bwa'') track outfile,
                   self\<lparr>self_tmpdir := Some (t @ ''bwa'')\<rparr>))
       \<and> (n \<noteq> 1 \<and> n \<noteq> 2 \<longrightarrow>
            BWA_mapper E self infiles outfile =
              Inl (ValueError (''unexpected number read files to map: '' @ decimal n @ '' ''))
            \<and> spec_error (ValueError (''unexpected number read files to map: '' @
                                       decimal n @ '' '')) = UnsupportedArity)"
proof (intro conjI impI)
  assume "n = 2"
  with assms show "BWA_mapper E self infiles outfile =
      Inr (''mkdir -p '' @ t @ ''bwa; '' @
           bwa_paired_text
             (if self_datatype self = ''solid''
              then ''%(bwa_index_dir)s/%(genome)s_cs''
              else ''%(bwa_index_dir)s/%(genome)s'')
             (join '','' (map (\<lambda>x. quoteFile self (x ! 0)) infiles))
             (t @ ''bwa'') (track @ ''.1'') outfile
             (join '','' (map (\<lambda>x. quoteFile self (x ! 1)) infiles))
             (track @ ''.2'') track,
           self\<lparr>self_tmpdir := Some (t @ ''bwa'')\<rparr>)"
    by (intro BWA_mapper_paired) simp_all
next
  assume "n = 1"
  with assms show "BWA_mapper E self infiles outfile =
      Inr (''mkdir -p '' @ t @ ''bwa; '' @
           bwa_single_text
             (if self_datatype self = ''solid''
              then ''%(bwa_index_dir)s/%(genome)s_cs''
              else ''%(bwa_index_dir)s/%(genome)s'')
             (join '','' (map (\<lambda>x. quoteFile self (x ! 0)) infiles))
             (t @ ''bwa'') track outfile,
           self\<lparr>self_tmpdir := Some (t @ ''bwa'')\<rparr>)"
    by (intro BWA_mapper_single) simp_all
next
  assume "n \<noteq> 1 \<and> n \<noteq> 2"
  with assms show "BWA_mapper E self infiles outfile =
      Inl (ValueError (''unexpected number read files to map: '' @ decimal n @ '' ''))"
    by (intro BWA_mapper_other) simp_all
next
  show "spec_error (ValueError (''unexpected number read files to map: '' @
                                decimal n @ '' '')) = UnsupportedArity"
    by (simp add: spec_error_def)
qed

theorem BWA_mapper_by_arity_witness:
  "BWA_mapper demo_env
     ((BWA_new False False False False)\<lparr>self_tmpdir_fastq := Some ''/tmp/ctmpX''\<rparr>)
     [[''b.fastq.1.gz'', ''b.fastq.2.gz'']] ''b.bam'' =
   Inr (''mkdir -p /tmp/ctmpXbwa; '' @
        bwa_paired_text ''%(bwa_index_dir)s/%(genome)s''
          ''<( gunzip < b.fastq.1.gz )'' ''/tmp/ctmpXbwa'' ''b.1'' ''b.bam''
          ''<( gunzip < b.fastq.2.gz )'' ''b.2'' ''b'',
        (BWA_new False False False False)
          \<lparr>self_tmpdir_fastq := Some ''/tmp/ctmpX'', self_tmpdir := Some ''/tmp/ctmpXbwa''\<rparr>)"
proof -
  let ?self = "(BWA_new False False False False)\<lparr>self_tmpdir_fastq := Some ''/tmp/ctmpX''\<rparr>"
  have h1: "[[''b.fastq.1.gz'', ''b.fastq.2.gz'']] \<noteq> []" by simp
  have h2: "\<forall>g\<in>set [[''b.fastq.1.gz'', ''b.fastq.2.gz'']]. length g = 2" by simp
  have h3: "self_tmpdir_fastq ?self = Some ''/tmp/ctmpX''" by simp
  have h4: "snip demo_env (basename ''b.bam'') ''.bam'' = Inr ''b''"
    by (simp add: demo_env_def snip_suffix_def basename_def endswith_def)
  from BWA_mapper_by_arity [OF h1 h2 h3 h4]
  show ?thesis
    by (simp add: quoteFile_def endswith_def BWA_new_def Mapper_new_def)
qed

text \<open>
  C6, at the failing input.  For the \<^verbatim>\<open>BWA\<close> job on \<^verbatim>\<open>a.fastq.gz\<close> the plan creates
  the directory \<^verbatim>\<open>/tmp/ctmpXbwa\<close> in its mapper phase and writes the alignment files
  there; its last phase is the cleanup fragment \<^verbatim>\<open>rm -rf /tmp/ctmpX;\<close>, which names the
  directory of \<^verbatim>\<open>preprocess\<close> only.  \<^verbatim>\<open>/tmp/ctmpXbwa\<close> is no subdirectory of
  \<^verbatim>\<open>/tmp/ctmpX\<close>, and no phase of the plan removes it.  The \<^verbatim>\<open>cleanup\<close> of the subclass
  \<^verbatim>\<open>Butter\<close> on the same object names both directories.
\<close>

theorem BWA_cleanup_leaves_mapper_directory:
  "build (BWA_class demo_env) (BWA_new False False False False) [''a.fastq.gz''] ''a.bam'' =
     Inr (''mkdir -p /tmp/ctmpX;'' @ '' checkpoint; '' @
          (''mkdir -p /tmp/ctmpXbwa; '' @
           bwa_single_text ''%(bwa_index_dir)s/%(genome)s'' ''<( gunzip < a.fastq.gz )''
             ''/tmp/ctmpXbwa'' ''a'' ''a.bam'') @ '' checkpoint; '' @
          bwa_postprocess_text ''/tmp/ctmpXbwa'' ''a'' [] [] [] ''a'' ''a.bam'' @
          '' checkpoint; '' @ ''rm -rf /tmp/ctmpX;'',
          (BWA_new False False False False)
            \<lparr>self_tmpdir_fastq := Some ''/tmp/ctmpX'', self_tmpdir := Some ''/tmp/ctmpXbwa''\<rparr>)
   \<and> fragment (Butter_cleanup
                 ((BWA_new False False False False)
                    \<lparr>self_tmpdir_fastq := Some ''/tmp/ctmpX'',
                     self_tmpdir := Some ''/tmp/ctmpXbwa''\<rparr>) ''a.bam'') =
       Inr ''rm -rf /tmp/ctmpX /tmp/ctmpXbwa;''"
proof -
  let ?self0 = "BWA_new False False False False"
  let ?self1 = "?self0\<lparr>self_tmpdir_fastq := Some ''/tmp/ctmpX''\<rparr>"
  let ?self2 = "?self0\<lparr>self_tmpdir_fastq := Some ''/tmp/ctmpX'',
                        self_tmpdir := Some ''/tmp/ctmpXbwa''\<rparr>"
  let ?M = "''mkdir -p /tmp/ctmpXbwa; '' @
            bwa_single_text ''%(bwa_index_dir)s/%(genome)s'' ''<( gunzip < a.fastq.gz )''
              ''/tmp/ctmpXbwa'' ''a'' ''a.bam''"
  let ?P = "bwa_postprocess_text ''/tmp/ctmpXbwa'' ''a'' [] [] [] ''a'' ''a.bam''"
  have snip1: "snip demo_env (basename ''a.bam'') ''.bam'' = Inr ''a''"
    by (simp add: demo_env_def snip_suffix_def basename_def endswith_def)
  have snip2: "snip demo_env ''a.bam'' ''.bam'' = Inr ''a''"
    by (simp add: demo_env_def snip_suffix_def endswith_def)
  have p1: "preprocess_m (BWA_class demo_env) ?self0 [''a.fastq.gz''] ''a.bam'' =
              Inr ((''mkdir -p /tmp/ctmpX;'', [[''a.fastq.gz'']]), ?self1)"
    by (simp add: BWA_class_def Mapper_class_def preprocess_single_example)
  have h1: "[[''a.fastq.gz'']] \<noteq> []" by simp
  have h2: "\<forall>g\<in>set [[''a.fastq.gz'']]. length g = 1" by simp
  have h3: "self_tmpdir_fastq ?self1 = Some ''/tmp/ctmpX''" by simp
  have p2: "mapper_m (BWA_class demo_env) ?self1 [[''a.fastq.gz'']] ''a.bam'' =
              Inr (?M, ?self2)"
    using BWA_mapper_single [OF h1 h2 h3 snip1]
    by (simp add: BWA_class_def Mapper_class_def quoteFile_def endswith_def BWA_new_def
          Mapper_new_def)
  have p3: "postprocess_m (BWA_class demo_env) ?self2 [''a.fastq.gz''] ''a.bam'' =
              Inr (?P, ?self2)"
    by (simp add: BWA_class_def Mapper_class_def BWA_postprocess_def snip1 snip2 attr_def
          Let_def bwa_postprocess_format BWA_new_def Mapper_new_def)
  have p4: "cleanup_m (BWA_class demo_env) ?self2 ''a.bam'' =
              Inr (''rm -rf /tmp/ctmpX;'', ?self2)"
    by (simp add: BWA_class_def Mapper_class_def Mapper_cleanup_def attr_def)
  have tM: "terminated ?M"
    by (intro terminated_appendI) (rule terminated_bwa_single_text)
  have tP: "terminated ?P" by (rule terminated_bwa_postprocess_text)
  have b: "build (BWA_class demo_env) ?self0 [''a.fastq.gz''] ''a.bam'' =
             Inr (''mkdir -p /tmp/ctmpX;'' @ '' checkpoint; '' @ ?M @ '' checkpoint; '' @
                  ?P @ '' checkpoint; '' @ ''rm -rf /tmp/ctmpX;'', ?self2)"
    unfolding build_of_phases [OF p1 p2 p3 p4]
    using terminated_mkdir terminated_rm tM tP by simp
  have c: "fragment (Butter_cleanup ?self2 ''a.bam'') = Inr ''rm -rf /tmp/ctmpX /tmp/ctmpXbwa;''"
    by (simp add: fragment_def Butter_cleanup_def attr_def)
  from b c show ?thesis by simp
qed

end
